theory Spec2Isabelle
  imports Complex_Main "HOL-Library.Char_ord" "HOL-Library.List_Lexorder"
    "HOL-Library.Product_Lexorder"
begin

section \<open>Data model\<close>

text \<open>
  A sample table is a pandas DataFrame; here it is the list of its rows, in row order.
  The columns are the ones \<^verbatim>\<open>carregar_pasta_csv\<close> produces: \<^verbatim>\<open>Key\<close> (the response code,
  an integer), \<^verbatim>\<open>t_sec\<close>, \<^verbatim>\<open>X\<close>, \<^verbatim>\<open>Y\<close> (float64), \<^verbatim>\<open>Stimuli\<close> and \<^verbatim>\<open>paciente_id\<close>
  (strings). A float64 column is modelled by \<^typ>\<open>real\<close>: comparisons are the ones of
  the code, arithmetic is the exact one, and the loader replaces every NaN of the
  numeric columns by 0, so a cell is always a number. A result that the code marks with
  NaN or None is \<^term>\<open>None\<close> here.
\<close>

record row =
  Key :: int
  t_sec :: real
  X :: real
  Y :: real
  Stimuli :: string
  paciente_id :: string

datatype label_t = Fix | Sac

text \<open>A row of the table \<^verbatim>\<open>rotular_ivt\<close> returns: the sample and the six added columns.\<close>

record ivt_row = row +
  dx :: real
  dy :: real
  dt :: real
  speed :: real
  label :: label_t
  seg_id :: int

definition PERCENTIL_LIMIAR_VEL :: real where
  "PERCENTIL_LIMIAR_VEL = 85"

definition VEL_MIN :: real where
  "VEL_MIN = 0.5"

definition FIX_MIN_S :: real where
  "FIX_MIN_S = 0.100"

section \<open>Library operations the pipeline calls\<close>

text \<open>\<^verbatim>\<open>Series.diff()\<close>: the difference to the previous row, undefined on the first row.\<close>

fun diff_from :: "real option \<Rightarrow> real list \<Rightarrow> real option list" where
  "diff_from prev [] = []"
| "diff_from prev (v # vs) = map_option (\<lambda>p. v - p) prev # diff_from (Some v) vs"

definition diff :: "real list \<Rightarrow> real option list" where
  "diff vs = diff_from None vs"

text \<open>\<^verbatim>\<open>Series.fillna(c)\<close>.\<close>

definition fillna :: "real \<Rightarrow> real option list \<Rightarrow> real list" where
  "fillna c vs = map (\<lambda>v. case v of None \<Rightarrow> c | Some y \<Rightarrow> y) vs"

text \<open>\<^verbatim>\<open>Series.replace(a, b)\<close>.\<close>

definition replace :: "real \<Rightarrow> real \<Rightarrow> real list \<Rightarrow> real list" where
  "replace a b vs = map (\<lambda>v. if v = a then b else v) vs"

text \<open>
  \<^verbatim>\<open>np.nanpercentile(values, q)\<close> and \<^verbatim>\<open>Series.quantile(q / 100)\<close>, both with the default
  linear interpolation: on the sorted values the virtual index is \<open>(n - 1) * q / 100\<close>, and
  the result interpolates between its two neighbours. On no values the result is NaN.
\<close>

definition percentile :: "real list \<Rightarrow> real \<Rightarrow> real option" where
  "percentile vs q =
     (if vs = [] then None
      else let s = sort vs;
               h = real (length s - 1) * q / 100;
               lo = nat \<lfloor>h\<rfloor>;
               hi = min (lo + 1) (length s - 1)
           in Some (s ! lo + (h - real lo) * (s ! hi - s ! lo)))"

text \<open>
  \<^verbatim>\<open>Series.max()\<close> and \<^verbatim>\<open>Series.min()\<close>. The code takes them of non-empty columns only.
\<close>

definition series_max :: "real list \<Rightarrow> real" where
  "series_max vs = fold max (tl vs) (hd vs)"

definition series_min :: "real list \<Rightarrow> real" where
  "series_min vs = fold min (tl vs) (hd vs)"

section \<open>The velocity classifier\<close>

text \<open>
  \<^verbatim>\<open>(label != label.shift(1)).cumsum()\<close>: the first row differs from the missing value
  before it, so the running count starts at 1, and it grows by one at every row whose
  label differs from the previous row's.
\<close>

fun seg_ids_from :: "label_t option \<Rightarrow> int \<Rightarrow> label_t list \<Rightarrow> int list" where
  "seg_ids_from prev acc [] = []"
| "seg_ids_from prev acc (l # ls) =
     (let acc' = (if Some l \<noteq> prev then acc + 1 else acc)
      in acc' # seg_ids_from (Some l) acc' ls)"

definition seg_ids :: "label_t list \<Rightarrow> int list" where
  "seg_ids ls = seg_ids_from None 0 ls"

definition add_cols :: "row \<Rightarrow> real \<Rightarrow> real \<Rightarrow> real \<Rightarrow> real \<Rightarrow> label_t \<Rightarrow> int \<Rightarrow> ivt_row" where
  "add_cols r a b c d l s = row.extend r (ivt_row.fields a b c d l s)"

text \<open>
  The columns of the normal case, each computed on the window sorted by time
  (\<^verbatim>\<open>sort_values("t_sec")\<close>, modelled by the stable \<^term>\<open>sort_key\<close>).
\<close>

definition ivt_sorted :: "row list \<Rightarrow> row list" where
  "ivt_sorted explore = sort_key t_sec explore"

definition ivt_dx :: "row list \<Rightarrow> real list" where
  "ivt_dx explore = fillna 0 (diff (map X (ivt_sorted explore)))"

definition ivt_dy :: "row list \<Rightarrow> real list" where
  "ivt_dy explore = fillna 0 (diff (map Y (ivt_sorted explore)))"

definition ivt_dt_raw :: "row list \<Rightarrow> real list" where
  "ivt_dt_raw explore = fillna 0 (diff (map t_sec (ivt_sorted explore)))"

definition ivt_dt :: "row list \<Rightarrow> real list" where
  "ivt_dt explore = map (\<lambda>x. max x (1 / 10 ^ 6)) (replace 0 (1 / 10 ^ 6) (ivt_dt_raw explore))"

text \<open>
  \<^verbatim>\<open>np.sqrt(dx**2 + dy**2) / dt\<close>. Every \<open>dt\<close> is at least \<open>1e-6\<close> here, so over the reals the
  quotient is a number and the two replacements of infinite and undefined speeds by 0
  that follow in the code change nothing.
\<close>

definition ivt_speed :: "row list \<Rightarrow> real list" where
  "ivt_speed explore =
     map (\<lambda>(a, b, c). sqrt (a\<^sup>2 + b\<^sup>2) / c)
       (zip (ivt_dx explore) (zip (ivt_dy explore) (ivt_dt explore)))"

text \<open>
  The adaptive threshold. The percentile is undefined on an empty column only, which the
  test on the largest speed excludes; that branch is never taken.
\<close>

definition ivt_vt :: "row list \<Rightarrow> real" where
  "ivt_vt explore =
     (if series_max (ivt_speed explore) > 0
      then (case percentile (ivt_speed explore) PERCENTIL_LIMIAR_VEL of
              None \<Rightarrow> VEL_MIN
            | Some p \<Rightarrow> max p VEL_MIN)
      else VEL_MIN)"

definition ivt_label :: "row list \<Rightarrow> label_t list" where
  "ivt_label explore = map (\<lambda>s. if s \<le> ivt_vt explore then Fix else Sac) (ivt_speed explore)"

definition ivt_seg_id :: "row list \<Rightarrow> int list" where
  "ivt_seg_id explore = seg_ids (ivt_label explore)"

definition rotular_ivt :: "row list \<Rightarrow> ivt_row list \<times> real" where
  "rotular_ivt explore =
     (if explore = [] \<or> length explore < 3
      then (map (\<lambda>r. add_cols r 0 0 0 0 Fix 1) explore, VEL_MIN)
      else (map (\<lambda>(r, a, b, c, d, l, s). add_cols r a b c d l s)
              (zip (ivt_sorted explore) (zip (ivt_dx explore) (zip (ivt_dy explore)
                (zip (ivt_dt explore) (zip (ivt_speed explore)
                  (zip (ivt_label explore) (ivt_seg_id explore))))))),
            ivt_vt explore))"

section \<open>The response-window extractor\<close>

text \<open>
  \<^verbatim>\<open>janela_exploracao\<close> returns the tuple (explore, t0, t_resp, tempo_resposta, resposta).
  After \<^verbatim>\<open>sort_values("t_sec").reset_index(drop=True)\<close> the index of a row is its position,
  which \<^term>\<open>enumerate 0\<close> pairs with the row. \<^verbatim>\<open>sort_values\<close> is modelled by the stable
  \<^term>\<open>sort_key\<close>; the properties below are stated on the sorted table, whatever the order
  it gives to samples of equal time.
\<close>

definition janela_exploracao ::
  "row list \<Rightarrow> row list \<times> real option \<times> real option \<times> real option \<times> int option" where
  "janela_exploracao df_pac =
     (if df_pac = [] then (df_pac, None, None, None, None)
      else
        let df = sort_key t_sec df_pac;
            t0 = t_sec (df ! 0);
            respostas = filter (\<lambda>(i, r). Key r \<noteq> 0) (enumerate 0 df)
        in (case respostas of
              (idx, _) # _ \<Rightarrow>
                let t_resp = t_sec (df ! idx);
                    resposta = Key (df ! idx);
                    explore = map snd (filter (\<lambda>(i, r). Key r = 0 \<and> i < idx) (enumerate 0 df))
                in (explore, Some t0, Some t_resp, Some (t_resp - t0), Some resposta)
            | [] \<Rightarrow>
                let t_resp = t_sec (last df);
                    explore = filter (\<lambda>r. Key r = 0) df
                in (explore, Some t0, Some t_resp, Some (t_resp - t0), None)))"

section \<open>Segments and metrics\<close>

text \<open>
  A row of the table \<^verbatim>\<open>segmentos_por_label\<close> returns. Its columns \<^verbatim>\<open>seg_id\<close>, \<^verbatim>\<open>label\<close> and
  \<^verbatim>\<open>n\<close> are the fields \<open>seg_seg_id\<close>, \<open>seg_label\<close> and \<open>seg_n\<close>.
\<close>

record segment =
  seg_seg_id :: int
  seg_label :: label_t
  t_start :: real
  t_end :: real
  seg_n :: nat
  x_start :: real
  y_start :: real
  x_end :: real
  y_end :: real
  dur :: real

text \<open>
  \<^verbatim>\<open>groupby(["seg_id", "label"])\<close> yields one group for each pair of values that occurs, the
  groups in ascending order of the pair and the rows of a group in table order. The labels
  are the strings "fix" and "sac", so a fixation sorts before a saccade.
\<close>

definition label_rank :: "label_t \<Rightarrow> nat" where
  "label_rank l = (case l of Fix \<Rightarrow> 0 | Sac \<Rightarrow> 1)"

definition group_keys :: "ivt_row list \<Rightarrow> (int \<times> label_t) list" where
  "group_keys df =
     sort_key (\<lambda>(s, l). (s, label_rank l)) (remdups (map (\<lambda>r. (seg_id r, label r)) df))"

definition agg :: "int \<times> label_t \<Rightarrow> ivt_row list \<Rightarrow> segment" where
  "agg k g =
     \<lparr>seg_seg_id = fst k, seg_label = snd k,
      t_start = series_min (map t_sec g), t_end = series_max (map t_sec g),
      seg_n = length g,
      x_start = X (hd g), y_start = Y (hd g), x_end = X (last g), y_end = Y (last g),
      dur = series_max (map t_sec g) - series_min (map t_sec g)\<rparr>"

definition segmentos_por_label :: "ivt_row list \<Rightarrow> segment list" where
  "segmentos_por_label explore_ivt =
     (if explore_ivt = [] then []
      else map (\<lambda>k. agg k (filter (\<lambda>r. (seg_id r, label r) = k) explore_ivt))
             (group_keys explore_ivt))"

definition dispersao_area_bb :: "row list \<Rightarrow> real" where
  "dispersao_area_bb explore =
     (if explore = [] \<or> length explore < 2 then 0
      else
        let x_range = series_max (map X explore) - series_min (map X explore);
            y_range = series_max (map Y explore) - series_min (map Y explore)
        in x_range * y_range)"

text \<open>
  Python's \<^verbatim>\<open>round(x, ndigits)\<close>: the nearest multiple of \<open>10 ^ -ndigits\<close>, a tie going to
  the even one.
\<close>

definition py_round :: "real \<Rightarrow> nat \<Rightarrow> real" where
  "py_round x ndigits =
     (let y = x * 10 ^ ndigits;
          f = \<lfloor>y\<rfloor>;
          d = y - of_int f
      in of_int (if d < 1 / 2 then f else if 1 / 2 < d then f + 1
                 else if even f then f else f + 1) / 10 ^ ndigits)"

text \<open>\<^verbatim>\<open>Series.mean()\<close> on a non-empty column.\<close>

definition mean :: "real list \<Rightarrow> real" where
  "mean vs = sum_list vs / real (length vs)"

text \<open>The dictionary \<^verbatim>\<open>metricas_paciente_por_estimulo\<close> returns.\<close>

record metricas =
  resposta :: "int option"
  tempo_resposta_s :: "real option"
  n_sacadas :: nat
  tempo_medio_sacada_s :: "real option"
  n_fixacoes :: nat
  duracao_media_fix_s :: "real option"
  dispersao_area :: real
  limiar_vt :: "real option"

definition metricas_paciente_por_estimulo :: "row list \<Rightarrow> metricas" where
  "metricas_paciente_por_estimulo df_pac_est =
     (if df_pac_est = [] then
        \<lparr>resposta = None, tempo_resposta_s = None, n_sacadas = 0,
         tempo_medio_sacada_s = None, n_fixacoes = 0, duracao_media_fix_s = None,
         dispersao_area = 0, limiar_vt = None\<rparr>
      else
        (case janela_exploracao df_pac_est of
           (explore, t0, t_resp, t_total, resp) \<Rightarrow>
             if explore = [] then
               \<lparr>resposta = resp,
                tempo_resposta_s = map_option (\<lambda>t. py_round t 3) t_total,
                n_sacadas = 0, tempo_medio_sacada_s = None, n_fixacoes = 0,
                duracao_media_fix_s = None, dispersao_area = 0, limiar_vt = None\<rparr>
             else
               (case rotular_ivt explore of
                  (explore_ivt, vt) \<Rightarrow>
                    let seg = segmentos_por_label explore_ivt;
                        fix = filter (\<lambda>s. seg_label s = Fix \<and> dur s \<ge> FIX_MIN_S) seg;
                        sac = filter (\<lambda>s. seg_label s = Sac) seg;
                        disp = dispersao_area_bb explore
                    in \<lparr>resposta = resp,
                        tempo_resposta_s = map_option (\<lambda>t. py_round t 3) t_total,
                        n_sacadas = length sac,
                        tempo_medio_sacada_s =
                          (if length sac \<noteq> 0 then Some (py_round (mean (map dur sac)) 4) else None),
                        n_fixacoes = length fix,
                        duracao_media_fix_s =
                          (if length fix \<noteq> 0 then Some (py_round (mean (map dur fix)) 4) else None),
                        dispersao_area = py_round disp 6,
                        limiar_vt = Some (py_round vt 4)\<rparr>)))"

section \<open>Per-subject transforms\<close>

text \<open>
  \<^verbatim>\<open>df.groupby("paciente_id", group_keys=False).apply(f)\<close>, for an \<open>f\<close> that returns one value
  for each row of the group it is given, under the index of that row. A row of the table
  is in the group of the rows with its own \<^verbatim>\<open>paciente_id\<close>; \<open>f\<close> is applied to that group, and
  the value the result holds under the row's index is the row's value. Whether pandas
  hands the values back in table order or group by group, every later use here
  (\<^verbatim>\<open>mask_x & mask_y\<close>, \<^verbatim>\<open>df[mask]\<close>, a column assignment) aligns them on the index, so the
  model keeps them in table order. \<^verbatim>\<open>groupby(...)[col].diff()\<close> is the same with the
  difference as \<open>f\<close>.
\<close>

definition groupby_apply :: "(row list \<Rightarrow> 'a list) \<Rightarrow> row list \<Rightarrow> 'a list" where
  "groupby_apply f df =
     map (\<lambda>(i, r).
            let g = filter (\<lambda>(j, q). paciente_id q = paciente_id r) (enumerate 0 df)
            in the (map_of (zip (map fst g) (f (map snd g))) i))
       (enumerate 0 df)"

text \<open>\<^verbatim>\<open>len(df["paciente_id"].unique()) > 1\<close>.\<close>

definition varios_pacientes :: "row list \<Rightarrow> bool" where
  "varios_pacientes df \<longleftrightarrow> length (remdups (map paciente_id df)) > 1"

text \<open>Boolean indexing \<^verbatim>\<open>df[mask]\<close>, the mask aligned with the rows.\<close>

definition select :: "'a list \<Rightarrow> bool list \<Rightarrow> 'a list" where
  "select df msk = map fst (filter snd (zip df msk))"

definition NORMALIZAR_COORDS :: bool where
  "NORMALIZAR_COORDS = True"

definition normalizar_grupo :: "row list \<Rightarrow> row list" where
  "normalizar_grupo g =
     (let x_min = series_min (map X g); x_max = series_max (map X g);
          y_min = series_min (map Y g); y_max = series_max (map Y g);
          g1 = (if x_max - x_min > 1 / 10 ^ 10
                then map (\<lambda>r. r\<lparr>X := (X r - x_min) / (x_max - x_min)\<rparr>) g
                else map (\<lambda>r. r\<lparr>X := 1 / 2\<rparr>) g);
          g2 = (if y_max - y_min > 1 / 10 ^ 10
                then map (\<lambda>r. r\<lparr>Y := (Y r - y_min) / (y_max - y_min)\<rparr>) g1
                else map (\<lambda>r. r\<lparr>Y := 1 / 2\<rparr>) g1)
      in g2)"

definition normalizar_coordenadas :: "row list \<Rightarrow> row list" where
  "normalizar_coordenadas df =
     (if \<not> NORMALIZAR_COORDS \<or> df = [] then df
      else if varios_pacientes df then groupby_apply normalizar_grupo df
      else normalizar_grupo df)"

text \<open>
  \<^verbatim>\<open>_iqr_mask(g, col)\<close>. The quartiles of an empty column are NaN, and every comparison
  with NaN is false.
\<close>

definition iqr_mask :: "(row \<Rightarrow> real) \<Rightarrow> row list \<Rightarrow> bool list" where
  "iqr_mask col g =
     (case (percentile (map col g) 25, percentile (map col g) 75) of
        (Some q1, Some q3) \<Rightarrow>
          let iqr = q3 - q1;
              lo = q1 - 1.5 * iqr;
              hi = q3 + 1.5 * iqr
          in map (\<lambda>r. col r \<ge> lo \<and> col r \<le> hi) g
      | _ \<Rightarrow> map (\<lambda>r. False) g)"

definition limpar_e_outliers :: "row list \<Rightarrow> row list" where
  "limpar_e_outliers df0 =
     (if df0 = [] then df0
      else
        let df1 = filter (\<lambda>r. \<not> (X r = 0 \<and> Y r = 0)) df0;
            df2 = sort_key (\<lambda>r. (paciente_id r, t_sec r)) df1;
            mask_x = (if varios_pacientes df2 then groupby_apply (iqr_mask X) df2
                      else iqr_mask X df2);
            mask_y = (if varios_pacientes df2 then groupby_apply (iqr_mask Y) df2
                      else iqr_mask Y df2);
            df3 = select df2 (map (\<lambda>(a, b). a \<and> b) (zip mask_x mask_y));
            dts = (if varios_pacientes df3 then groupby_apply (\<lambda>g. diff (map t_sec g)) df3
                   else diff (map t_sec df3));
            df4 = select df3 (map (\<lambda>d. d \<noteq> Some 0 \<or> d = None) dts)
        in df4)"

section \<open>Inter-group statistics\<close>

text \<open>
  A row of the metric table of a group: the dictionary of
  \<^verbatim>\<open>metricas_paciente_por_estimulo\<close> with the columns \<^verbatim>\<open>paciente_id\<close>, \<^verbatim>\<open>grupo\<close> and \<^verbatim>\<open>Stimuli\<close>
  that \<^verbatim>\<open>processar_grupo_segmentado\<close> adds (the fields \<open>mets_paciente_id\<close>, \<open>mets_grupo\<close>,
  \<open>mets_Stimuli\<close>). A table is the list of its rows, and the empty table is \<open>[]\<close>.
\<close>

record mets_row = metricas +
  mets_paciente_id :: string
  mets_grupo :: string
  mets_Stimuli :: string

definition METRICAS_COMPARAR :: "string list" where
  "METRICAS_COMPARAR =
     [''tempo_resposta_s'', ''n_sacadas'', ''tempo_medio_sacada_s'', ''n_fixacoes'',
      ''duracao_media_fix_s'', ''dispersao_area'']"

text \<open>The cell of a metric column, \<^term>\<open>None\<close> where the table holds NaN.\<close>

definition coluna :: "string \<Rightarrow> mets_row \<Rightarrow> real option" where
  "coluna m r =
     (if m = ''tempo_resposta_s'' then tempo_resposta_s r
      else if m = ''n_sacadas'' then Some (real (n_sacadas r))
      else if m = ''tempo_medio_sacada_s'' then tempo_medio_sacada_s r
      else if m = ''n_fixacoes'' then Some (real (n_fixacoes r))
      else if m = ''duracao_media_fix_s'' then duracao_media_fix_s r
      else if m = ''dispersao_area'' then Some (dispersao_area r)
      else None)"

text \<open>\<^verbatim>\<open>t[m].dropna().values\<close>, and the empty array for the empty table.\<close>

definition valores :: "string \<Rightarrow> mets_row list \<Rightarrow> real list" where
  "valores m t = (if t \<noteq> [] then List.map_filter (coluna m) t else [])"

text \<open>\<^verbatim>\<open>np.std(arr, ddof=1)\<close>.\<close>

definition std_ddof1 :: "real list \<Rightarrow> real" where
  "std_ddof1 vs = sqrt (sum_list (map (\<lambda>v. (v - mean vs)\<^sup>2) vs) / (real (length vs) - 1))"

record inter_row =
  ig_Stimuli :: string
  Metrica :: string
  Controle_media :: "real option"
  Controle_desvio :: "real option"
  Afasico_media :: "real option"
  Afasico_desvio :: "real option"
  MannWhitney_U :: "real option"
  p_value :: "real option"

text \<open>
  The body of the loop over the metrics, past the \<^verbatim>\<open>continue\<close>. \<^verbatim>\<open>scipy.stats.mannwhitneyu\<close>
  is not part of the repository: it is the parameter \<open>mannwhitneyu\<close>, which yields
  \<^term>\<open>None\<close> when the call raises and otherwise the statistic and the p-value, each
  \<^term>\<open>None\<close> when it is NaN; \<open>SCIPY_OK\<close> tells whether the import succeeded.
\<close>

definition linha_inter ::
  "bool \<Rightarrow> (real list \<Rightarrow> real list \<Rightarrow> (real option \<times> real option) option) \<Rightarrow>
   string \<Rightarrow> string \<Rightarrow> real list \<Rightarrow> real list \<Rightarrow> inter_row" where
  "linha_inter SCIPY_OK mannwhitneyu stim m arr_c arr_a =
     (let media_c = (if length arr_c > 0 then Some (mean arr_c) else None);
          desvp_c = (if length arr_c > 1 then Some (std_ddof1 arr_c) else None);
          media_a = (if length arr_a > 0 then Some (mean arr_a) else None);
          desvp_a = (if length arr_a > 1 then Some (std_ddof1 arr_a) else None);
          up = (if SCIPY_OK \<and> length arr_c > 0 \<and> length arr_a > 0
                then (case mannwhitneyu arr_c arr_a of
                        Some (u, p) \<Rightarrow> (u, p)
                      | None \<Rightarrow> (None, None))
                else (None, None))
      in \<lparr>ig_Stimuli = stim, Metrica = m,
          Controle_media = map_option (\<lambda>v. py_round v 6) media_c,
          Controle_desvio = map_option (\<lambda>v. py_round v 6) desvp_c,
          Afasico_media = map_option (\<lambda>v. py_round v 6) media_a,
          Afasico_desvio = map_option (\<lambda>v. py_round v 6) desvp_a,
          MannWhitney_U = map_option (\<lambda>v. py_round v 6) (fst up),
          p_value = map_option (\<lambda>v. py_round v 6) (snd up)\<rparr>)"

definition estatisticas_inter_grupo ::
  "bool \<Rightarrow> (real list \<Rightarrow> real list \<Rightarrow> (real option \<times> real option) option) \<Rightarrow>
   mets_row list \<Rightarrow> mets_row list \<Rightarrow> inter_row list" where
  "estatisticas_inter_grupo SCIPY_OK mannwhitneyu mets_ctrl mets_afa =
     (if mets_ctrl = [] \<and> mets_afa = [] then []
      else
        let stim_ctrl = (if mets_ctrl \<noteq> [] then remdups (map mets_Stimuli mets_ctrl) else []);
            stim_afa = (if mets_afa \<noteq> [] then remdups (map mets_Stimuli mets_afa) else []);
            stim_todos = sort (remdups (stim_ctrl @ stim_afa));
            linhas =
              concat (map (\<lambda>stim.
                let ctrl = (if mets_ctrl \<noteq> [] then filter (\<lambda>r. mets_Stimuli r = stim) mets_ctrl
                            else []);
                    afa = (if mets_afa \<noteq> [] then filter (\<lambda>r. mets_Stimuli r = stim) mets_afa
                           else [])
                in concat (map (\<lambda>m.
                     let arr_c = valores m ctrl;
                         arr_a = valores m afa
                     in if length arr_c = 0 \<and> length arr_a = 0 then []
                        else [linha_inter SCIPY_OK mannwhitneyu stim m arr_c arr_a])
                   METRICAS_COMPARAR))
                stim_todos)
        in if linhas = [] then []
           else sort_key (\<lambda>r. (ig_Stimuli r, Metrica r)) linhas)"

text \<open>A row of a metric table with no response time and no mean duration.\<close>

definition mets_of :: "string \<Rightarrow> string \<Rightarrow> nat \<Rightarrow> nat \<Rightarrow> mets_row" where
  "mets_of stim pid ns nf =
     \<lparr>resposta = None, tempo_resposta_s = None, n_sacadas = ns, tempo_medio_sacada_s = None,
      n_fixacoes = nf, duracao_media_fix_s = None, dispersao_area = 0, limiar_vt = None,
      mets_paciente_id = pid, mets_grupo = ''afasico'', mets_Stimuli = stim\<rparr>"

text \<open>A sample of a given subject, for the concrete tables below.\<close>

definition sample_of :: "string \<Rightarrow> real \<Rightarrow> real \<Rightarrow> real \<Rightarrow> row" where
  "sample_of p t x y =
     \<lparr>Key = 0, t_sec = t, X = x, Y = y, Stimuli = ''trog1.png'', paciente_id = p\<rparr>"

text \<open>A sample of one fixed subject and stimulus, for the concrete windows below.\<close>

definition sample :: "int \<Rightarrow> real \<Rightarrow> real \<Rightarrow> real \<Rightarrow> row" where
  "sample k t x y = \<lparr>Key = k, t_sec = t, X = x, Y = y, Stimuli = ''trog1.png'', paciente_id = ''p1''\<rparr>"

section \<open>Properties of the velocity classifier\<close>

subsection \<open>The degenerate case\<close>

lemma add_cols_sel [simp]:
  "dx (add_cols r a b c d l s) = a"
  "dy (add_cols r a b c d l s) = b"
  "dt (add_cols r a b c d l s) = c"
  "speed (add_cols r a b c d l s) = d"
  "label (add_cols r a b c d l s) = l"
  "seg_id (add_cols r a b c d l s) = s"
  "row.truncate (add_cols r a b c d l s) = r"
  by (simp_all add: add_cols_def row.defs ivt_row.defs)

text \<open>
  C1. A window of fewer than three samples, the empty one included, comes back with
  every sample labelled fixation, with dx, dy, dt and speed all 0, with the one segment
  id 1 on every sample, and with the threshold equal to the velocity floor 0.5.
\<close>

theorem C1_degenerate_window:
  "length explore < 3 \<Longrightarrow>
     snd (rotular_ivt explore) = 1 / 2 \<and>
     length (fst (rotular_ivt explore)) = length explore \<and>
     (\<forall>i < length explore.
        row.truncate (fst (rotular_ivt explore) ! i) = explore ! i \<and>
        label (fst (rotular_ivt explore) ! i) = Fix \<and>
        dx (fst (rotular_ivt explore) ! i) = 0 \<and>
        dy (fst (rotular_ivt explore) ! i) = 0 \<and>
        dt (fst (rotular_ivt explore) ! i) = 0 \<and>
        speed (fst (rotular_ivt explore) ! i) = 0 \<and>
        seg_id (fst (rotular_ivt explore) ! i) = 1)"
  by (simp add: rotular_ivt_def VEL_MIN_def)

theorem C1_degenerate_window_witness:
  "length [sample 0 0 1 2, sample 0 1 3 4] < 3 \<and>
   snd (rotular_ivt [sample 0 0 1 2, sample 0 1 3 4]) = 1 / 2 \<and>
   label (fst (rotular_ivt [sample 0 0 1 2, sample 0 1 3 4]) ! 1) = Fix \<and>
   dx (fst (rotular_ivt [sample 0 0 1 2, sample 0 1 3 4]) ! 1) = 0 \<and>
   dt (fst (rotular_ivt [sample 0 0 1 2, sample 0 1 3 4]) ! 1) = 0 \<and>
   speed (fst (rotular_ivt [sample 0 0 1 2, sample 0 1 3 4]) ! 1) = 0 \<and>
   seg_id (fst (rotular_ivt [sample 0 0 1 2, sample 0 1 3 4]) ! 1) = 1"
  using C1_degenerate_window [of "[sample 0 0 1 2, sample 0 1 3 4]"] by simp

subsection \<open>The normal case\<close>

lemma length_diff_from [simp]: "length (diff_from prev vs) = length vs"
  by (induction vs arbitrary: prev) simp_all

lemma diff_from_nth_Suc:
  "Suc i < length vs \<Longrightarrow> diff_from prev vs ! Suc i = Some (vs ! Suc i - vs ! i)"
proof (induction vs arbitrary: prev i)
  case Nil
  then show ?case by simp
next
  case (Cons v vs)
  show ?case
  proof (cases i)
    case 0
    with Cons.prems show ?thesis by (cases vs) simp_all
  next
    case (Suc j)
    with Cons show ?thesis by simp
  qed
qed

lemma length_fillna_diff [simp]: "length (fillna c (diff vs)) = length vs"
  by (simp add: fillna_def diff_def)

lemma fillna_diff_0: "vs \<noteq> [] \<Longrightarrow> fillna c (diff vs) ! 0 = c"
  by (cases vs) (simp_all add: fillna_def diff_def)

lemma fillna_diff_Suc:
  "Suc i < length vs \<Longrightarrow> fillna c (diff vs) ! Suc i = vs ! Suc i - vs ! i"
  by (simp add: fillna_def diff_def diff_from_nth_Suc)

lemma length_ivt_cols [simp]:
  "length (ivt_sorted e) = length e"
  "length (ivt_dx e) = length e"
  "length (ivt_dy e) = length e"
  "length (ivt_dt_raw e) = length e"
  "length (ivt_dt e) = length e"
  "length (ivt_speed e) = length e"
  "length (ivt_label e) = length e"
  by (simp_all add: ivt_sorted_def ivt_dx_def ivt_dy_def ivt_dt_raw_def ivt_dt_def
      replace_def ivt_speed_def ivt_label_def)

lemma length_seg_ids_from [simp]: "length (seg_ids_from prev acc ls) = length ls"
  by (induction ls arbitrary: prev acc) (simp_all add: Let_def)

lemma length_ivt_seg_id [simp]: "length (ivt_seg_id e) = length e"
  by (simp add: ivt_seg_id_def seg_ids_def)

lemma rotular_ivt_normal:
  assumes "3 \<le> length e"
  shows "snd (rotular_ivt e) = ivt_vt e"
    and "length (fst (rotular_ivt e)) = length e"
    and "i < length e \<Longrightarrow> fst (rotular_ivt e) ! i =
          add_cols (ivt_sorted e ! i) (ivt_dx e ! i) (ivt_dy e ! i) (ivt_dt e ! i)
            (ivt_speed e ! i) (ivt_label e ! i) (ivt_seg_id e ! i)"
  using assms by (auto simp add: rotular_ivt_def)

lemma seg_ids_from_0:
  "ls \<noteq> [] \<Longrightarrow> seg_ids_from prev acc ls ! 0 = (if Some (ls ! 0) \<noteq> prev then acc + 1 else acc)"
  by (cases ls) (simp_all add: Let_def)

lemma seg_ids_from_Suc:
  "Suc i < length ls \<Longrightarrow>
     seg_ids_from prev acc ls ! Suc i =
       (if ls ! Suc i \<noteq> ls ! i then seg_ids_from prev acc ls ! i + 1
        else seg_ids_from prev acc ls ! i)"
proof (induction ls arbitrary: prev acc i)
  case Nil
  then show ?case by simp
next
  case (Cons l ls)
  show ?case
  proof (cases i)
    case 0
    with Cons.prems show ?thesis by (cases ls) (simp_all add: Let_def)
  next
    case (Suc j)
    with Cons show ?thesis by (simp add: Let_def)
  qed
qed

lemma dt_clamp: "max (if v = 0 then 1 / 10 ^ 6 else v) (1 / 10 ^ 6) = (if v < 1 / 10 ^ 6 then 1 / 10 ^ 6 else (v::real))"
  by auto

lemma ivt_dt_nth:
  "i < length e \<Longrightarrow> ivt_dt e ! i = (if ivt_dt_raw e ! i < 1 / 10 ^ 6 then 1 / 10 ^ 6 else ivt_dt_raw e ! i)"
  unfolding ivt_dt_def replace_def by (simp add: dt_clamp del: max_less_iff_conj)

lemma sample_sel [simp]:
  "Key (sample k t x y) = k" "t_sec (sample k t x y) = t" "X (sample k t x y) = x" "Y (sample k t x y) = y"
  "Stimuli (sample k t x y) = ''trog1.png''" "paciente_id (sample k t x y) = ''p1''"
  by (simp_all add: sample_def)

lemma map_truncate_rotular_ivt:
  "map row.truncate (fst (rotular_ivt e)) = (if length e < 3 then e else sort_key t_sec e)"
proof (cases "length e < 3")
  case True
  then show ?thesis by (simp add: rotular_ivt_def o_def)
next
  case False
  then have n: "3 \<le> length e" by simp
  have "map row.truncate (fst (rotular_ivt e)) = ivt_sorted e"
    by (rule nth_equalityI) (simp_all add: rotular_ivt_normal [OF n])
  with False show ?thesis by (simp add: ivt_sorted_def)
qed

text \<open>
  C2 (as amended). In the normal case, three samples or more, the window is sorted by
  time and each sample's dx, dy and dt are the differences to the sample just before it
  in that order. The first sample has dx = 0 and dy = 0, and its time difference 0 is
  stored as the epsilon 1e-6. A time difference is replaced by 1e-6 exactly when it is
  below 1e-6: the code first replaces 0 and then takes \<^verbatim>\<open>max(x, 1e-6)\<close>, so a strictly
  positive difference smaller than 1e-6 is raised to 1e-6 too, and every difference of
  at least 1e-6 is left unchanged.
\<close>

theorem C2_deltas_normal_case:
  "3 \<le> length explore \<Longrightarrow>
     length (fst (rotular_ivt explore)) = length explore \<and>
     map row.truncate (fst (rotular_ivt explore)) = sort_key t_sec explore \<and>
     dx (fst (rotular_ivt explore) ! 0) = 0 \<and>
     dy (fst (rotular_ivt explore) ! 0) = 0 \<and>
     dt (fst (rotular_ivt explore) ! 0) = 1 / 10 ^ 6 \<and>
     (\<forall>i. Suc i < length explore \<longrightarrow>
        dx (fst (rotular_ivt explore) ! Suc i) =
          X (sort_key t_sec explore ! Suc i) - X (sort_key t_sec explore ! i) \<and>
        dy (fst (rotular_ivt explore) ! Suc i) =
          Y (sort_key t_sec explore ! Suc i) - Y (sort_key t_sec explore ! i) \<and>
        dt (fst (rotular_ivt explore) ! Suc i) =
          (if t_sec (sort_key t_sec explore ! Suc i) - t_sec (sort_key t_sec explore ! i) < 1 / 10 ^ 6
           then 1 / 10 ^ 6
           else t_sec (sort_key t_sec explore ! Suc i) - t_sec (sort_key t_sec explore ! i)))"
proof -
  assume n: "3 \<le> length explore"
  then have ne: "map X (ivt_sorted explore) \<noteq> []" "map Y (ivt_sorted explore) \<noteq> []"
    "map t_sec (ivt_sorted explore) \<noteq> []" "0 < length explore"
    using length_ivt_cols(1) [of explore] by (auto simp del: length_ivt_cols)
  have first: "dx (fst (rotular_ivt explore) ! 0) = 0"
    "dy (fst (rotular_ivt explore) ! 0) = 0"
    "dt (fst (rotular_ivt explore) ! 0) = 1 / 10 ^ 6"
    using n ne
    by (simp_all add: rotular_ivt_normal ivt_dt_nth ivt_dx_def ivt_dy_def ivt_dt_raw_def fillna_diff_0)
  have rest: "dx (fst (rotular_ivt explore) ! Suc i) =
          X (sort_key t_sec explore ! Suc i) - X (sort_key t_sec explore ! i) \<and>
        dy (fst (rotular_ivt explore) ! Suc i) =
          Y (sort_key t_sec explore ! Suc i) - Y (sort_key t_sec explore ! i) \<and>
        dt (fst (rotular_ivt explore) ! Suc i) =
          (if t_sec (sort_key t_sec explore ! Suc i) - t_sec (sort_key t_sec explore ! i) < 1 / 10 ^ 6
           then 1 / 10 ^ 6
           else t_sec (sort_key t_sec explore ! Suc i) - t_sec (sort_key t_sec explore ! i))"
    if "Suc i < length explore" for i
  proof -
    have "Suc i < length (ivt_sorted explore)" "i < length (ivt_sorted explore)"
      using that by simp_all
    then show ?thesis
      using n that
      by (simp add: rotular_ivt_normal ivt_dt_nth ivt_dx_def ivt_dy_def ivt_dt_raw_def
          fillna_diff_Suc) (simp add: ivt_sorted_def)
  qed
  show ?thesis
    using n first rest by (simp add: rotular_ivt_normal(2) map_truncate_rotular_ivt)
qed

lemma rotular_ivt_nth_1: "fst (rotular_ivt [a, b, c]) ! Suc 0 =
   add_cols (ivt_sorted [a, b, c] ! 1) (ivt_dx [a, b, c] ! 1) (ivt_dy [a, b, c] ! 1)
     (ivt_dt [a, b, c] ! 1) (ivt_speed [a, b, c] ! 1) (ivt_label [a, b, c] ! 1) (ivt_seg_id [a, b, c] ! 1)"
  using rotular_ivt_normal(3) [of "[a, b, c]" 1] by simp

text \<open>
  The claim as written (a strictly positive time difference is left unchanged) fails on
  the window with times 0, 5e-7 and 1: the second sample's difference 5e-7 is positive,
  and the dt stored for it is 1e-6.
\<close>

theorem C2_counterexample:
  "0 < t_sec (sort_key t_sec [sample 0 0 0 0, sample 0 (5 / 10 ^ 7) 0 0, sample 0 1 3 0] ! 1)
       - t_sec (sort_key t_sec [sample 0 0 0 0, sample 0 (5 / 10 ^ 7) 0 0, sample 0 1 3 0] ! 0) \<and>
   dt (fst (rotular_ivt [sample 0 0 0 0, sample 0 (5 / 10 ^ 7) 0 0, sample 0 1 3 0]) ! 1) \<noteq>
     t_sec (sort_key t_sec [sample 0 0 0 0, sample 0 (5 / 10 ^ 7) 0 0, sample 0 1 3 0] ! 1)
       - t_sec (sort_key t_sec [sample 0 0 0 0, sample 0 (5 / 10 ^ 7) 0 0, sample 0 1 3 0] ! 0)"
  by (simp add: rotular_ivt_nth_1 ivt_dt_def replace_def ivt_dt_raw_def ivt_sorted_def diff_def fillna_def)

theorem C2_deltas_normal_case_witness:
  "3 \<le> length [sample 0 0 0 0, sample 0 (5 / 10 ^ 7) 0 0, sample 0 1 3 0] \<and>
   dt (fst (rotular_ivt [sample 0 0 0 0, sample 0 (5 / 10 ^ 7) 0 0, sample 0 1 3 0]) ! Suc 0) = 1 / 10 ^ 6 \<and>
   dt (fst (rotular_ivt [sample 0 0 0 0, sample 0 (5 / 10 ^ 7) 0 0, sample 0 1 3 0]) ! Suc (Suc 0)) = 1 - 5 / 10 ^ 7 \<and>
   dx (fst (rotular_ivt [sample 0 0 0 0, sample 0 (5 / 10 ^ 7) 0 0, sample 0 1 3 0]) ! Suc (Suc 0)) = 3"
  using C2_deltas_normal_case [of "[sample 0 0 0 0, sample 0 (5 / 10 ^ 7) 0 0, sample 0 1 3 0]"]
  by simp

lemma map_speed_rotular_ivt:
  "3 \<le> length e \<Longrightarrow> map speed (fst (rotular_ivt e)) = ivt_speed e"
  by (rule nth_equalityI) (simp_all add: rotular_ivt_normal)

lemma map_label_rotular_ivt:
  "3 \<le> length e \<Longrightarrow> map label (fst (rotular_ivt e)) = ivt_label e"
  by (rule nth_equalityI) (simp_all add: rotular_ivt_normal)

lemma ivt_vt_floor: "VEL_MIN \<le> ivt_vt e"
  by (simp add: ivt_vt_def split: option.split)

lemma percentile_Some: "vs \<noteq> [] \<Longrightarrow> \<exists>p. percentile vs q = Some p"
  by (simp add: percentile_def Let_def)

text \<open>
  C3. The threshold returned is never below the velocity floor 0.5. In the normal case
  with a positive largest speed it is the larger of the 85th percentile of the speed
  column and the floor; in every other case (fewer than three samples, or no positive
  speed) it is the floor.
\<close>

theorem C3_threshold_floor:
  "1 / 2 \<le> snd (rotular_ivt explore) \<and>
   (3 \<le> length explore \<and> 0 < series_max (map speed (fst (rotular_ivt explore))) \<longrightarrow>
      (\<exists>p. percentile (map speed (fst (rotular_ivt explore))) 85 = Some p \<and>
           snd (rotular_ivt explore) = max p (1 / 2))) \<and>
   (\<not> (3 \<le> length explore \<and> 0 < series_max (map speed (fst (rotular_ivt explore)))) \<longrightarrow>
      snd (rotular_ivt explore) = 1 / 2)"
proof (cases "3 \<le> length explore")
  case True
  then have ne: "ivt_speed explore \<noteq> []"
    using length_ivt_cols(6) [of explore] by (auto simp del: length_ivt_cols)
  from percentile_Some [OF ne] obtain p where p: "percentile (ivt_speed explore) 85 = Some p"
    by blast
  have "1 / 2 \<le> ivt_vt explore"
    using ivt_vt_floor [of explore] by (simp add: VEL_MIN_def)
  with True p show ?thesis
    by (simp add: rotular_ivt_normal(1) map_speed_rotular_ivt ivt_vt_def VEL_MIN_def
        PERCENTIL_LIMIAR_VEL_def)
next
  case False
  then show ?thesis by (simp add: rotular_ivt_def VEL_MIN_def)
qed

lemma ivt_speed3:
  "ivt_speed [sample 0 0 0 0, sample 0 1 0 0, sample 0 2 3 0] = [0, 0, 3]"
  by (simp add: ivt_speed_def ivt_dx_def ivt_dy_def ivt_dt_def replace_def ivt_dt_raw_def
      ivt_sorted_def diff_def fillna_def)

theorem C3_threshold_floor_witness:
  "3 \<le> length [sample 0 0 0 0, sample 0 1 0 0, sample 0 2 3 0] \<and>
   0 < series_max (map speed (fst (rotular_ivt [sample 0 0 0 0, sample 0 1 0 0, sample 0 2 3 0]))) \<and>
   percentile (map speed (fst (rotular_ivt [sample 0 0 0 0, sample 0 1 0 0, sample 0 2 3 0]))) 85
     = Some (21 / 10) \<and>
   snd (rotular_ivt [sample 0 0 0 0, sample 0 1 0 0, sample 0 2 3 0]) = 21 / 10 \<and>
   \<not> (3 \<le> length [sample 0 0 0 0, sample 0 1 0 0]) \<and>
   snd (rotular_ivt [sample 0 0 0 0, sample 0 1 0 0]) = 1 / 2"
  using C3_threshold_floor [of "[sample 0 0 0 0, sample 0 1 0 0, sample 0 2 3 0]"]
    C3_threshold_floor [of "[sample 0 0 0 0, sample 0 1 0 0]"]
  by (auto simp add: map_speed_rotular_ivt ivt_speed3 series_max_def percentile_def Let_def)

text \<open>
  C4. In the table the classifier returns, the first sample has segment id 1, segment
  ids never decrease, and from one sample to the next the id grows exactly when the
  label changes; where the label stays the same the id stays the same.
\<close>

theorem C4_segment_ids:
  "length (fst (rotular_ivt explore)) = length explore \<and>
   (explore \<noteq> [] \<longrightarrow> seg_id (fst (rotular_ivt explore) ! 0) = 1) \<and>
   (\<forall>i. Suc i < length explore \<longrightarrow>
      seg_id (fst (rotular_ivt explore) ! i) \<le> seg_id (fst (rotular_ivt explore) ! Suc i) \<and>
      (seg_id (fst (rotular_ivt explore) ! i) < seg_id (fst (rotular_ivt explore) ! Suc i)
         \<longleftrightarrow> label (fst (rotular_ivt explore) ! Suc i) \<noteq> label (fst (rotular_ivt explore) ! i)) \<and>
      (label (fst (rotular_ivt explore) ! Suc i) = label (fst (rotular_ivt explore) ! i)
         \<longrightarrow> seg_id (fst (rotular_ivt explore) ! Suc i) = seg_id (fst (rotular_ivt explore) ! i)))"
proof (cases "3 \<le> length explore")
  case True
  have ne: "ivt_label explore \<noteq> []"
    using True length_ivt_cols(7) [of explore] by (auto simp del: length_ivt_cols)
  have first: "seg_id (fst (rotular_ivt explore) ! 0) = 1"
  proof -
    have "0 < length explore" using True by (cases explore) simp_all
    with True ne show ?thesis
      by (simp add: rotular_ivt_normal ivt_seg_id_def seg_ids_def seg_ids_from_0)
  qed
  have step: "seg_id (fst (rotular_ivt explore) ! Suc i) =
      (if label (fst (rotular_ivt explore) ! Suc i) \<noteq> label (fst (rotular_ivt explore) ! i)
       then seg_id (fst (rotular_ivt explore) ! i) + 1
       else seg_id (fst (rotular_ivt explore) ! i))"
    if "Suc i < length explore" for i
  proof -
    have "Suc i < length (ivt_label explore)" using that by simp
    from seg_ids_from_Suc [OF this, of None 0] show ?thesis
      using True that by (simp add: rotular_ivt_normal ivt_seg_id_def seg_ids_def)
  qed
  show ?thesis
    using True first by (simp add: rotular_ivt_normal(2) step)
next
  case False
  then show ?thesis by (simp add: rotular_ivt_def)
qed

lemma ivt_label3:
  "map label (fst (rotular_ivt [sample 0 0 0 0, sample 0 1 0 0, sample 0 2 3 0])) = [Fix, Fix, Sac]"
  by (simp add: map_label_rotular_ivt ivt_label_def ivt_speed3 ivt_vt_def series_max_def
      percentile_def Let_def VEL_MIN_def PERCENTIL_LIMIAR_VEL_def)

lemma nth_map_label3:
  "label (fst (rotular_ivt [sample 0 0 0 0, sample 0 1 0 0, sample 0 2 3 0]) ! 0) = Fix"
  "label (fst (rotular_ivt [sample 0 0 0 0, sample 0 1 0 0, sample 0 2 3 0]) ! Suc 0) = Fix"
  "label (fst (rotular_ivt [sample 0 0 0 0, sample 0 1 0 0, sample 0 2 3 0]) ! Suc (Suc 0)) = Sac"
proof -
  let ?out = "fst (rotular_ivt [sample 0 0 0 0, sample 0 1 0 0, sample 0 2 3 0])"
  have len: "length ?out = 3" by (simp add: rotular_ivt_normal(2))
  have "map label ?out ! 0 = Fix" "map label ?out ! Suc 0 = Fix" "map label ?out ! Suc (Suc 0) = Sac"
    by (simp_all add: ivt_label3)
  then show "label (?out ! 0) = Fix" "label (?out ! Suc 0) = Fix" "label (?out ! Suc (Suc 0)) = Sac"
    using len by simp_all
qed

theorem C4_segment_ids_witness:
  "[sample 0 0 0 0, sample 0 1 0 0, sample 0 2 3 0] \<noteq> [] \<and>
   Suc (Suc 0) < length [sample 0 0 0 0, sample 0 1 0 0, sample 0 2 3 0] \<and>
   seg_id (fst (rotular_ivt [sample 0 0 0 0, sample 0 1 0 0, sample 0 2 3 0]) ! 0) = 1 \<and>
   label (fst (rotular_ivt [sample 0 0 0 0, sample 0 1 0 0, sample 0 2 3 0]) ! Suc 0) =
     label (fst (rotular_ivt [sample 0 0 0 0, sample 0 1 0 0, sample 0 2 3 0]) ! 0) \<and>
   seg_id (fst (rotular_ivt [sample 0 0 0 0, sample 0 1 0 0, sample 0 2 3 0]) ! Suc 0) = 1 \<and>
   label (fst (rotular_ivt [sample 0 0 0 0, sample 0 1 0 0, sample 0 2 3 0]) ! Suc (Suc 0)) \<noteq>
     label (fst (rotular_ivt [sample 0 0 0 0, sample 0 1 0 0, sample 0 2 3 0]) ! Suc 0) \<and>
   seg_id (fst (rotular_ivt [sample 0 0 0 0, sample 0 1 0 0, sample 0 2 3 0]) ! Suc 0) <
     seg_id (fst (rotular_ivt [sample 0 0 0 0, sample 0 1 0 0, sample 0 2 3 0]) ! Suc (Suc 0))"
proof -
  let ?e = "[sample 0 0 0 0, sample 0 1 0 0, sample 0 2 3 0]"
  note c4 = C4_segment_ids [of ?e]
  from c4 have first: "seg_id (fst (rotular_ivt ?e) ! 0) = 1" by simp
  from c4 have s0: "seg_id (fst (rotular_ivt ?e) ! Suc 0) = seg_id (fst (rotular_ivt ?e) ! 0)"
    using nth_map_label3(1,2) by simp
  from c4 have s1: "seg_id (fst (rotular_ivt ?e) ! Suc 0) < seg_id (fst (rotular_ivt ?e) ! Suc (Suc 0))"
    using nth_map_label3(2,3) by simp
  show ?thesis using first s0 s1 nth_map_label3 by simp
qed

section \<open>Properties of the response-window extractor\<close>

lemma filter_enumerate_none:
  "\<forall>r\<in>set xs. \<not> P r \<Longrightarrow> filter (\<lambda>(i, r). P r) (enumerate n xs) = []"
  by (induction xs arbitrary: n) simp_all

lemma filter_enumerate_first:
  "k < length xs \<Longrightarrow> P (xs ! k) \<Longrightarrow> \<forall>j<k. \<not> P (xs ! j) \<Longrightarrow>
     \<exists>rest. filter (\<lambda>(i, r). P r) (enumerate n xs) = (n + k, xs ! k) # rest"
proof (induction xs arbitrary: n k)
  case Nil
  then show ?case by simp
next
  case (Cons x xs)
  show ?case
  proof (cases k)
    case 0
    with Cons.prems show ?thesis by simp
  next
    case (Suc m)
    have nx: "\<not> P x" using Cons.prems(3) Suc by auto
    have "\<forall>j<m. \<not> P (xs ! j)" using Cons.prems(3) Suc by auto
    with Cons.IH [of m "Suc n"] Cons.prems(1,2) Suc
    obtain rest where "filter (\<lambda>(i, r). P r) (enumerate (Suc n) xs) = (Suc n + m, xs ! m) # rest"
      by auto
    with nx Suc show ?thesis by simp
  qed
qed

lemma filter_enumerate_before:
  "map snd (filter (\<lambda>(i, r). Q r \<and> i < n + k) (enumerate n xs)) = filter Q (take k xs)"
proof (induction xs arbitrary: n k)
  case Nil
  then show ?case by simp
next
  case (Cons x xs)
  show ?case
  proof (cases k)
    case 0
    have "filter (\<lambda>(i, r). Q r \<and> i < n) (enumerate (Suc n) xs) = []"
      by (auto simp add: filter_empty_conv in_set_enumerate_eq)
    with 0 show ?thesis by simp
  next
    case (Suc m)
    with Cons.IH [of "Suc n" m] show ?thesis by simp
  qed
qed

text \<open>
  C5. The extractor works on the table sorted by time, and t0 is the first sorted
  sample's time. On the empty table every output is undefined and the window is empty.
  If position k holds the first sample with a non-zero response code, t_resp is that
  sample's time, the response code is its value and the window is the samples with
  response code 0 before position k. If no sample has a non-zero response code, t_resp
  is the last sample's time, the response code is undefined and the window is all the
  samples with response code 0. In both non-empty cases the response time is
  t_resp - t0.
\<close>

theorem C5_response_window:
  "(df_pac = [] \<longrightarrow> janela_exploracao df_pac = ([], None, None, None, None)) \<and>
   (\<forall>k. k < length df_pac \<and> Key (sort_key t_sec df_pac ! k) \<noteq> 0 \<and>
        (\<forall>j<k. Key (sort_key t_sec df_pac ! j) = 0) \<longrightarrow>
      janela_exploracao df_pac =
        (filter (\<lambda>r. Key r = 0) (take k (sort_key t_sec df_pac)),
         Some (t_sec (sort_key t_sec df_pac ! 0)),
         Some (t_sec (sort_key t_sec df_pac ! k)),
         Some (t_sec (sort_key t_sec df_pac ! k) - t_sec (sort_key t_sec df_pac ! 0)),
         Some (Key (sort_key t_sec df_pac ! k)))) \<and>
   (df_pac \<noteq> [] \<and> (\<forall>r\<in>set df_pac. Key r = 0) \<longrightarrow>
      janela_exploracao df_pac =
        (filter (\<lambda>r. Key r = 0) (sort_key t_sec df_pac),
         Some (t_sec (sort_key t_sec df_pac ! 0)),
         Some (t_sec (last (sort_key t_sec df_pac))),
         Some (t_sec (last (sort_key t_sec df_pac)) - t_sec (sort_key t_sec df_pac ! 0)),
         None))"
proof (intro conjI impI allI)
  assume "df_pac = []"
  then show "janela_exploracao df_pac = ([], None, None, None, None)"
    by (simp add: janela_exploracao_def)
next
  fix k
  let ?s = "sort_key t_sec df_pac"
  assume a: "k < length df_pac \<and> Key (?s ! k) \<noteq> 0 \<and> (\<forall>j<k. Key (?s ! j) = 0)"
  then have ne: "df_pac \<noteq> []" by auto
  from a have "k < length ?s" "Key (?s ! k) \<noteq> 0" "\<forall>j<k. \<not> Key (?s ! j) \<noteq> 0" by simp_all
  from filter_enumerate_first [of k ?s "\<lambda>r. Key r \<noteq> 0" 0, OF this]
  obtain rest where r: "filter (\<lambda>(i, r). Key r \<noteq> 0) (enumerate 0 ?s) = (k, ?s ! k) # rest"
    by auto
  have e: "map snd (filter (\<lambda>(i, r). Key r = 0 \<and> i < k) (enumerate 0 ?s))
      = filter (\<lambda>r. Key r = 0) (take k ?s)"
    using filter_enumerate_before [of "\<lambda>r. Key r = 0" 0 k ?s] by simp
  show "janela_exploracao df_pac =
        (filter (\<lambda>r. Key r = 0) (take k ?s), Some (t_sec (?s ! 0)), Some (t_sec (?s ! k)),
         Some (t_sec (?s ! k) - t_sec (?s ! 0)), Some (Key (?s ! k)))"
    using ne by (simp add: janela_exploracao_def Let_def r e)
next
  let ?s = "sort_key t_sec df_pac"
  assume a: "df_pac \<noteq> [] \<and> (\<forall>r\<in>set df_pac. Key r = 0)"
  then have "\<forall>r\<in>set ?s. \<not> Key r \<noteq> 0" by simp
  from filter_enumerate_none [of ?s "\<lambda>r. Key r \<noteq> 0" 0, OF this]
  have r: "filter (\<lambda>(i, r). Key r \<noteq> 0) (enumerate 0 ?s) = []" .
  show "janela_exploracao df_pac =
        (filter (\<lambda>r. Key r = 0) ?s, Some (t_sec (?s ! 0)), Some (t_sec (last ?s)),
         Some (t_sec (last ?s) - t_sec (?s ! 0)), None)"
    using a by (simp add: janela_exploracao_def Let_def r)
qed

theorem C5_response_window_witness:
  "janela_exploracao [] = ([], None, None, None, None) \<and>
   janela_exploracao
     [sample 0 (3 / 10) (9 / 10) (9 / 10), sample 1 (31 / 100) (91 / 100) (9 / 10),
      sample 0 0 (1 / 10) (1 / 10), sample 0 (5 / 100) (1 / 10) (1 / 10)] =
     ([sample 0 0 (1 / 10) (1 / 10), sample 0 (5 / 100) (1 / 10) (1 / 10),
       sample 0 (3 / 10) (9 / 10) (9 / 10)],
      Some 0, Some (31 / 100), Some (31 / 100), Some 1) \<and>
   janela_exploracao [sample 0 2 0 0, sample 0 1 0 0] =
     ([sample 0 1 0 0, sample 0 2 0 0], Some 1, Some 2, Some 1, None)"
proof -
  let ?d = "[sample 0 (3 / 10) (9 / 10) (9 / 10), sample 1 (31 / 100) (91 / 100) (9 / 10),
      sample 0 0 (1 / 10) (1 / 10), sample 0 (5 / 100) (1 / 10) (1 / 10)]"
  have s: "sort_key t_sec ?d =
     [sample 0 0 (1 / 10) (1 / 10), sample 0 (5 / 100) (1 / 10) (1 / 10),
      sample 0 (3 / 10) (9 / 10) (9 / 10), sample 1 (31 / 100) (91 / 100) (9 / 10)]"
    by simp
  have k: "3 < length ?d \<and> Key (sort_key t_sec ?d ! 3) \<noteq> 0 \<and> (\<forall>j<3. Key (sort_key t_sec ?d ! j) = 0)"
    unfolding s by (simp add: less_Suc_eq numeral_3_eq_3)
  have a: "janela_exploracao [] = ([], None, None, None, None)"
    using C5_response_window [of "[]"] by simp
  have b: "janela_exploracao ?d =
     ([sample 0 0 (1 / 10) (1 / 10), sample 0 (5 / 100) (1 / 10) (1 / 10),
       sample 0 (3 / 10) (9 / 10) (9 / 10)],
      Some 0, Some (31 / 100), Some (31 / 100), Some 1)"
    using C5_response_window [of ?d, THEN conjunct2, THEN conjunct1, THEN spec, of 3] k
    unfolding s by simp
  have c: "janela_exploracao [sample 0 2 0 0, sample 0 1 0 0] =
     ([sample 0 1 0 0, sample 0 2 0 0], Some 1, Some 2, Some 1, None)"
    using C5_response_window [of "[sample 0 2 0 0, sample 0 1 0 0]"] by simp
  show ?thesis using a b c by blast
qed

section \<open>Properties of the metric calculator\<close>

subsection \<open>The empty exploration window\<close>

lemma first_nonzero:
  assumes "\<exists>r\<in>set s. Key r \<noteq> 0"
  shows "\<exists>k<length s. Key (s ! k) \<noteq> 0 \<and> (\<forall>j<k. Key (s ! j) = 0)"
proof -
  from assms have "\<exists>n. n < length s \<and> Key (s ! n) \<noteq> 0"
    by (auto simp add: in_set_conv_nth)
  then obtain n where n: "n < length s \<and> Key (s ! n) \<noteq> 0"
    and least: "\<forall>m<n. \<not> (m < length s \<and> Key (s ! m) \<noteq> 0)"
    using exists_least_iff [of "\<lambda>n. n < length s \<and> Key (s ! n) \<noteq> 0"] by blast
  have "\<forall>j<n. Key (s ! j) = 0"
  proof (intro allI impI)
    fix j assume "j < n"
    with least n show "Key (s ! j) = 0" by auto
  qed
  with n show ?thesis by blast
qed

lemma py_round_0 [simp]: "py_round 0 n = 0"
  by (simp add: py_round_def)

lemma janela_empty_window:
  assumes ne: "df \<noteq> []" and e: "fst (janela_exploracao df) = []"
  shows "Key (sort_key t_sec df ! 0) \<noteq> 0 \<and>
         janela_exploracao df =
           ([], Some (t_sec (sort_key t_sec df ! 0)), Some (t_sec (sort_key t_sec df ! 0)), Some 0,
            Some (Key (sort_key t_sec df ! 0)))"
proof -
  let ?s = "sort_key t_sec df"
  have sne: "?s \<noteq> []" using ne length_sort [of t_sec df] by (auto simp del: length_sort)
  show ?thesis
  proof (cases "\<exists>r\<in>set ?s. Key r \<noteq> 0")
    case False
    then have all0: "\<forall>r\<in>set ?s. \<not> Key r \<noteq> 0" by blast
    have "filter (\<lambda>(i, r). Key r \<noteq> 0) (enumerate 0 ?s) = []"
      by (rule filter_enumerate_none [OF all0])
    with ne have "fst (janela_exploracao df) = filter (\<lambda>r. Key r = 0) ?s"
      by (simp add: janela_exploracao_def Let_def)
    also have "\<dots> = ?s" using all0 by simp
    finally show ?thesis using e sne by simp
  next
    case True
    from first_nonzero [OF this] obtain k where k: "k < length ?s" "Key (?s ! k) \<noteq> 0"
      "\<forall>j<k. Key (?s ! j) = 0" by blast
    then have k': "\<forall>j<k. \<not> Key (?s ! j) \<noteq> 0" by simp
    from filter_enumerate_first [of k ?s "\<lambda>r. Key r \<noteq> 0" 0, OF k(1,2) k']
    obtain rest where r: "filter (\<lambda>(i, r). Key r \<noteq> 0) (enumerate 0 ?s) = (k, ?s ! k) # rest"
      by auto
    have w: "map snd (filter (\<lambda>(i, r). Key r = 0 \<and> i < k) (enumerate 0 ?s))
        = filter (\<lambda>r. Key r = 0) (take k ?s)"
      using filter_enumerate_before [of "\<lambda>r. Key r = 0" 0 k ?s] by simp
    have j: "janela_exploracao df =
        (filter (\<lambda>r. Key r = 0) (take k ?s), Some (t_sec (?s ! 0)), Some (t_sec (?s ! k)),
         Some (t_sec (?s ! k) - t_sec (?s ! 0)), Some (Key (?s ! k)))"
      using ne by (simp add: janela_exploracao_def Let_def r w)
    have "\<forall>r\<in>set (take k ?s). Key r = 0"
      using k(1,3) by (auto simp add: in_set_conv_nth)
    then have "filter (\<lambda>r. Key r = 0) (take k ?s) = take k ?s" by simp
    with j e have "take k ?s = []" by simp
    with sne have "k = 0" by simp
    with j k(2) show ?thesis by simp
  qed
qed

text \<open>
  C10. A non-empty table whose exploration window is empty, as happens when the first
  sample in time order already carries a non-zero response code, gives the row with
  saccade count 0, fixation count 0, dispersion area 0, both mean durations undefined,
  the response code and the response time of the extractor, and an undefined velocity
  threshold: the classifier is not called, so the row does not report the velocity
  floor. The response time is 0 there, which the rounding to three decimals keeps.
\<close>

theorem C10_empty_window_row:
  "(df \<noteq> [] \<and> Key (sort_key t_sec df ! 0) \<noteq> 0 \<longrightarrow> fst (janela_exploracao df) = []) \<and>
   (df \<noteq> [] \<and> fst (janela_exploracao df) = [] \<longrightarrow>
      metricas_paciente_por_estimulo df =
        \<lparr>resposta = snd (snd (snd (snd (janela_exploracao df)))),
         tempo_resposta_s = fst (snd (snd (snd (janela_exploracao df)))),
         n_sacadas = 0, tempo_medio_sacada_s = None,
         n_fixacoes = 0, duracao_media_fix_s = None,
         dispersao_area = 0, limiar_vt = None\<rparr>)"
proof (intro conjI impI)
  let ?s = "sort_key t_sec df"
  assume a: "df \<noteq> [] \<and> Key (?s ! 0) \<noteq> 0"
  then have "0 < length ?s" by simp
  from filter_enumerate_first [of 0 ?s "\<lambda>r. Key r \<noteq> 0" 0, OF this] a
  obtain rest where r: "filter (\<lambda>(i, r). Key r \<noteq> 0) (enumerate 0 ?s) = (0, ?s ! 0) # rest"
    by auto
  show "fst (janela_exploracao df) = []"
    using a by (simp add: janela_exploracao_def Let_def r)
next
  assume a: "df \<noteq> [] \<and> fst (janela_exploracao df) = []"
  from janela_empty_window [of df] a
  have j: "janela_exploracao df =
      ([], Some (t_sec (sort_key t_sec df ! 0)), Some (t_sec (sort_key t_sec df ! 0)), Some 0,
       Some (Key (sort_key t_sec df ! 0)))" by blast
  show "metricas_paciente_por_estimulo df =
        \<lparr>resposta = snd (snd (snd (snd (janela_exploracao df)))),
         tempo_resposta_s = fst (snd (snd (snd (janela_exploracao df)))),
         n_sacadas = 0, tempo_medio_sacada_s = None,
         n_fixacoes = 0, duracao_media_fix_s = None,
         dispersao_area = 0, limiar_vt = None\<rparr>"
    using a unfolding metricas_paciente_por_estimulo_def j by simp
qed

theorem C10_empty_window_row_witness:
  "[sample 0 2 0 0, sample 3 1 0 0] \<noteq> [] \<and>
   Key (sort_key t_sec [sample 0 2 0 0, sample 3 1 0 0] ! 0) \<noteq> 0 \<and>
   fst (janela_exploracao [sample 0 2 0 0, sample 3 1 0 0]) = [] \<and>
   metricas_paciente_por_estimulo [sample 0 2 0 0, sample 3 1 0 0] =
     \<lparr>resposta = Some 3, tempo_resposta_s = Some 0, n_sacadas = 0, tempo_medio_sacada_s = None,
      n_fixacoes = 0, duracao_media_fix_s = None, dispersao_area = 0, limiar_vt = None\<rparr>"
proof -
  let ?d = "[sample 0 2 0 0, sample 3 1 0 0]"
  have s: "sort_key t_sec ?d = [sample 3 1 0 0, sample 0 2 0 0]" by simp
  have h: "?d \<noteq> [] \<and> Key (sort_key t_sec ?d ! 0) \<noteq> 0" unfolding s by simp
  have j: "janela_exploracao ?d = ([], Some 1, Some 1, Some 0, Some 3)"
    by (simp add: janela_exploracao_def Let_def)
  from C10_empty_window_row [of ?d] h have e: "fst (janela_exploracao ?d) = []" by blast
  from C10_empty_window_row [of ?d] e
  have "metricas_paciente_por_estimulo ?d =
        \<lparr>resposta = snd (snd (snd (snd (janela_exploracao ?d)))),
         tempo_resposta_s = fst (snd (snd (snd (janela_exploracao ?d)))),
         n_sacadas = 0, tempo_medio_sacada_s = None,
         n_fixacoes = 0, duracao_media_fix_s = None,
         dispersao_area = 0, limiar_vt = None\<rparr>" by blast
  then show ?thesis using h e unfolding j by simp
qed

subsection \<open>Fixations and saccades\<close>

text \<open>
  C6. With the segments of the exploration window at hand, the fixation count is the
  number of fixation segments lasting at least 0.100 s, and the mean fixation duration
  is the mean over exactly those segments (rounded to four decimals, undefined when
  there is none). A fixation segment lasting 0.08 s keeps its label and is not among
  them. The saccade count is the number of all saccade segments, whatever they last,
  and the mean saccade duration is taken over all of them.
\<close>

theorem C6_fixation_duration_filter:
  "let segs = segmentos_por_label (fst (rotular_ivt (fst (janela_exploracao df))));
       counted = filter (\<lambda>s. seg_label s = Fix \<and> 1 / 10 \<le> dur s) segs;
       sacs = filter (\<lambda>s. seg_label s = Sac) segs
   in n_fixacoes (metricas_paciente_por_estimulo df) = length counted \<and>
      duracao_media_fix_s (metricas_paciente_por_estimulo df) =
        (if counted = [] then None else Some (py_round (mean (map dur counted)) 4)) \<and>
      n_sacadas (metricas_paciente_por_estimulo df) = length sacs \<and>
      tempo_medio_sacada_s (metricas_paciente_por_estimulo df) =
        (if sacs = [] then None else Some (py_round (mean (map dur sacs)) 4)) \<and>
      (\<forall>s\<in>set segs. seg_label s = Fix \<and> dur s = 8 / 100 \<longrightarrow> s \<notin> set counted) \<and>
      (\<forall>s\<in>set segs. seg_label s = Sac \<longrightarrow> s \<in> set sacs)"
proof (cases "fst (janela_exploracao df) = []")
  case True
  then have "metricas_paciente_por_estimulo df =
      \<lparr>resposta = snd (snd (snd (snd (janela_exploracao df)))),
       tempo_resposta_s = map_option (\<lambda>t. py_round t 3) (fst (snd (snd (snd (janela_exploracao df))))),
       n_sacadas = 0, tempo_medio_sacada_s = None, n_fixacoes = 0, duracao_media_fix_s = None,
       dispersao_area = 0, limiar_vt = None\<rparr>"
    by (auto simp add: metricas_paciente_por_estimulo_def janela_exploracao_def split: prod.splits)
  with True show ?thesis
    by (simp add: rotular_ivt_def segmentos_por_label_def)
next
  case False
  then have ne: "df \<noteq> []" by (auto simp add: janela_exploracao_def)
  obtain explore t0 t_resp t_total resp where j: "janela_exploracao df = (explore, t0, t_resp, t_total, resp)"
    by (cases "janela_exploracao df") auto
  obtain explore_ivt vt where r: "rotular_ivt explore = (explore_ivt, vt)"
    by (cases "rotular_ivt explore") auto
  from False j have e: "explore \<noteq> []" by simp
  show ?thesis
    using ne e by (simp add: metricas_paciente_por_estimulo_def j r Let_def FIX_MIN_S_def)
qed

lemma janela_w6:
  "janela_exploracao [sample 0 0 0 0, sample 0 (1 / 25) 0 0, sample 0 (2 / 25) 0 0] =
     ([sample 0 0 0 0, sample 0 (1 / 25) 0 0, sample 0 (2 / 25) 0 0],
      Some 0, Some (2 / 25), Some (2 / 25), None)"
  by (simp add: janela_exploracao_def Let_def)

lemma cols_w6:
  "ivt_sorted [sample 0 0 0 0, sample 0 (1 / 25) 0 0, sample 0 (2 / 25) 0 0] =
     [sample 0 0 0 0, sample 0 (1 / 25) 0 0, sample 0 (2 / 25) 0 0]"
  "ivt_dx [sample 0 0 0 0, sample 0 (1 / 25) 0 0, sample 0 (2 / 25) 0 0] = [0, 0, 0]"
  "ivt_dy [sample 0 0 0 0, sample 0 (1 / 25) 0 0, sample 0 (2 / 25) 0 0] = [0, 0, 0]"
  "ivt_dt [sample 0 0 0 0, sample 0 (1 / 25) 0 0, sample 0 (2 / 25) 0 0] =
     [1 / 10 ^ 6, 1 / 25, 1 / 25]"
  "ivt_speed [sample 0 0 0 0, sample 0 (1 / 25) 0 0, sample 0 (2 / 25) 0 0] = [0, 0, 0]"
  by (simp_all add: ivt_speed_def ivt_dx_def ivt_dy_def ivt_dt_def replace_def ivt_dt_raw_def
      ivt_sorted_def diff_def fillna_def)

lemma rotular_w6:
  "fst (rotular_ivt [sample 0 0 0 0, sample 0 (1 / 25) 0 0, sample 0 (2 / 25) 0 0]) =
     [add_cols (sample 0 0 0 0) 0 0 (1 / 10 ^ 6) 0 Fix 1,
      add_cols (sample 0 (1 / 25) 0 0) 0 0 (1 / 25) 0 Fix 1,
      add_cols (sample 0 (2 / 25) 0 0) 0 0 (1 / 25) 0 Fix 1]"
  by (simp add: rotular_ivt_def cols_w6 ivt_seg_id_def seg_ids_def ivt_label_def ivt_vt_def
      series_max_def VEL_MIN_def)

lemma add_cols_row_sel [simp]:
  "t_sec (add_cols r a b c d l s) = t_sec r"
  "X (add_cols r a b c d l s) = X r"
  "Y (add_cols r a b c d l s) = Y r"
  "Key (add_cols r a b c d l s) = Key r"
  by (simp_all add: add_cols_def row.defs ivt_row.defs)

lemma seg_w6:
  "segmentos_por_label
     (fst (rotular_ivt [sample 0 0 0 0, sample 0 (1 / 25) 0 0, sample 0 (2 / 25) 0 0])) =
     [\<lparr>seg_seg_id = 1, seg_label = Fix, t_start = 0, t_end = 2 / 25, seg_n = 3,
       x_start = 0, y_start = 0, x_end = 0, y_end = 0, dur = 2 / 25\<rparr>]"
  unfolding rotular_w6
  by (simp add: segmentos_por_label_def group_keys_def agg_def series_min_def series_max_def)


lemma janela_w6b:
  "janela_exploracao [sample 0 0 0 0, sample 0 1 0 0, sample 0 2 3 0] =
     ([sample 0 0 0 0, sample 0 1 0 0, sample 0 2 3 0], Some 0, Some 2, Some 2, None)"
  by (simp add: janela_exploracao_def Let_def)

lemma cols_w6b:
  "ivt_sorted [sample 0 0 0 0, sample 0 1 0 0, sample 0 2 3 0] =
     [sample 0 0 0 0, sample 0 1 0 0, sample 0 2 3 0]"
  "ivt_dx [sample 0 0 0 0, sample 0 1 0 0, sample 0 2 3 0] = [0, 0, 3]"
  "ivt_dy [sample 0 0 0 0, sample 0 1 0 0, sample 0 2 3 0] = [0, 0, 0]"
  "ivt_dt [sample 0 0 0 0, sample 0 1 0 0, sample 0 2 3 0] = [1 / 10 ^ 6, 1, 1]"
  by (simp_all add: ivt_dx_def ivt_dy_def ivt_dt_def replace_def ivt_dt_raw_def
      ivt_sorted_def diff_def fillna_def)

lemma rotular_w6b:
  "fst (rotular_ivt [sample 0 0 0 0, sample 0 1 0 0, sample 0 2 3 0]) =
     [add_cols (sample 0 0 0 0) 0 0 (1 / 10 ^ 6) 0 Fix 1,
      add_cols (sample 0 1 0 0) 0 0 1 0 Fix 1,
      add_cols (sample 0 2 3 0) 3 0 1 3 Sac 2]"
  by (simp add: rotular_ivt_def cols_w6b ivt_speed3 ivt_seg_id_def seg_ids_def ivt_label_def
      ivt_vt_def series_max_def VEL_MIN_def PERCENTIL_LIMIAR_VEL_def percentile_def Let_def)

lemma seg_w6b:
  "segmentos_por_label (fst (rotular_ivt [sample 0 0 0 0, sample 0 1 0 0, sample 0 2 3 0])) =
     [\<lparr>seg_seg_id = 1, seg_label = Fix, t_start = 0, t_end = 1, seg_n = 2,
       x_start = 0, y_start = 0, x_end = 0, y_end = 0, dur = 1\<rparr>,
      \<lparr>seg_seg_id = 2, seg_label = Sac, t_start = 2, t_end = 2, seg_n = 1,
       x_start = 3, y_start = 0, x_end = 3, y_end = 0, dur = 0\<rparr>]"
  unfolding rotular_w6b
  by (simp add: segmentos_por_label_def group_keys_def agg_def series_min_def series_max_def
      label_rank_def)

lemma py_round_1 [simp]: "py_round 1 n = 1"
  by (simp add: py_round_def)


theorem C6_fixation_duration_filter_witness:
  "segmentos_por_label (fst (rotular_ivt (fst (janela_exploracao
      [sample 0 0 0 0, sample 0 (1 / 25) 0 0, sample 0 (2 / 25) 0 0])))) =
     [\<lparr>seg_seg_id = 1, seg_label = Fix, t_start = 0, t_end = 2 / 25, seg_n = 3,
       x_start = 0, y_start = 0, x_end = 0, y_end = 0, dur = 2 / 25\<rparr>] \<and>
   n_fixacoes (metricas_paciente_por_estimulo
      [sample 0 0 0 0, sample 0 (1 / 25) 0 0, sample 0 (2 / 25) 0 0]) = 0 \<and>
   duracao_media_fix_s (metricas_paciente_por_estimulo
      [sample 0 0 0 0, sample 0 (1 / 25) 0 0, sample 0 (2 / 25) 0 0]) = None \<and>
   n_sacadas (metricas_paciente_por_estimulo
      [sample 0 0 0 0, sample 0 (1 / 25) 0 0, sample 0 (2 / 25) 0 0]) = 0 \<and>
   n_sacadas (metricas_paciente_por_estimulo
      [sample 0 0 0 0, sample 0 1 0 0, sample 0 2 3 0]) = 1 \<and>
   tempo_medio_sacada_s (metricas_paciente_por_estimulo
      [sample 0 0 0 0, sample 0 1 0 0, sample 0 2 3 0]) = Some 0 \<and>
   n_fixacoes (metricas_paciente_por_estimulo
      [sample 0 0 0 0, sample 0 1 0 0, sample 0 2 3 0]) = 1 \<and>
   duracao_media_fix_s (metricas_paciente_por_estimulo
      [sample 0 0 0 0, sample 0 1 0 0, sample 0 2 3 0]) = Some 1"
proof -
  have a: "segmentos_por_label (fst (rotular_ivt (fst (janela_exploracao
      [sample 0 0 0 0, sample 0 (1 / 25) 0 0, sample 0 (2 / 25) 0 0])))) =
     [\<lparr>seg_seg_id = 1, seg_label = Fix, t_start = 0, t_end = 2 / 25, seg_n = 3,
       x_start = 0, y_start = 0, x_end = 0, y_end = 0, dur = 2 / 25\<rparr>]"
    unfolding janela_w6 fst_conv seg_w6 by simp
  have b: "n_fixacoes (metricas_paciente_por_estimulo
      [sample 0 0 0 0, sample 0 (1 / 25) 0 0, sample 0 (2 / 25) 0 0]) = 0 \<and>
   duracao_media_fix_s (metricas_paciente_por_estimulo
      [sample 0 0 0 0, sample 0 (1 / 25) 0 0, sample 0 (2 / 25) 0 0]) = None \<and>
   n_sacadas (metricas_paciente_por_estimulo
      [sample 0 0 0 0, sample 0 (1 / 25) 0 0, sample 0 (2 / 25) 0 0]) = 0"
    using C6_fixation_duration_filter
      [of "[sample 0 0 0 0, sample 0 (1 / 25) 0 0, sample 0 (2 / 25) 0 0]"]
    unfolding janela_w6 fst_conv seg_w6 by (simp add: Let_def)
  have c: "n_sacadas (metricas_paciente_por_estimulo
      [sample 0 0 0 0, sample 0 1 0 0, sample 0 2 3 0]) = 1 \<and>
   tempo_medio_sacada_s (metricas_paciente_por_estimulo
      [sample 0 0 0 0, sample 0 1 0 0, sample 0 2 3 0]) = Some 0 \<and>
   n_fixacoes (metricas_paciente_por_estimulo
      [sample 0 0 0 0, sample 0 1 0 0, sample 0 2 3 0]) = 1 \<and>
   duracao_media_fix_s (metricas_paciente_por_estimulo
      [sample 0 0 0 0, sample 0 1 0 0, sample 0 2 3 0]) = Some 1"
    using C6_fixation_duration_filter [of "[sample 0 0 0 0, sample 0 1 0 0, sample 0 2 3 0]"]
    unfolding janela_w6b fst_conv seg_w6b by (simp add: Let_def mean_def)
  show ?thesis using a b c by blast
qed

section \<open>Properties of the per-subject transforms\<close>

subsection \<open>Grouped application restricted to one subject\<close>

lemma map_the_map_of_zip:
  assumes "distinct xs" and "length ys = length xs"
  shows "map (\<lambda>k. the (map_of (zip xs ys) k)) xs = ys"
proof (rule nth_equalityI)
  show "length (map (\<lambda>k. the (map_of (zip xs ys) k)) xs) = length ys"
    using assms by simp
next
  fix i assume "i < length (map (\<lambda>k. the (map_of (zip xs ys) k)) xs)"
  then have i: "i < length ys" using assms by simp
  have "map_of (zip xs ys) (xs ! i) = Some (ys ! i)"
    using assms i by (intro map_of_zip_nth) simp_all
  then show "map (\<lambda>k. the (map_of (zip xs ys) k)) xs ! i = ys ! i"
    using i assms by simp
qed

lemma map_snd_filter_enumerate:
  "map snd (filter (\<lambda>(j, q). P q) (enumerate n xs)) = filter P xs"
proof -
  have "filter P xs = filter P (map snd (enumerate n xs))" by simp
  also have "\<dots> = map snd (filter (P \<circ> snd) (enumerate n xs))" by (rule filter_map)
  also have "P \<circ> snd = (\<lambda>(j, q). P q)" by auto
  finally show ?thesis by simp
qed

lemma zip_map_enumerate:
  "zip xs (map F (enumerate n xs)) = map (\<lambda>e. (snd e, F e)) (enumerate n xs)"
  by (induction xs arbitrary: n) simp_all

lemma groupby_apply_restrict:
  assumes len: "\<And>g. length (f g) = length g"
  shows "map snd (filter (\<lambda>(r, v). paciente_id r = p) (zip df (groupby_apply f df)))
         = f (filter (\<lambda>r. paciente_id r = p) df)"
proof -
  let ?E = "enumerate 0 df"
  let ?G = "\<lambda>r. filter (\<lambda>(j, q). paciente_id q = paciente_id r) ?E"
  let ?F = "\<lambda>(i, r). let g = ?G r in the (map_of (zip (map fst g) (f (map snd g))) i)"
  let ?gp = "filter (\<lambda>(j, q). paciente_id q = p) ?E"
  let ?idx = "map fst ?gp"
  let ?vals = "f (map snd ?gp)"
  have ga: "groupby_apply f df = map ?F ?E" by (simp add: groupby_apply_def)
  have "map snd (filter (\<lambda>(r, v). paciente_id r = p) (zip df (map ?F ?E)))
      = map snd (filter (\<lambda>(r, v). paciente_id r = p) (map (\<lambda>e. (snd e, ?F e)) ?E))"
    by (simp only: zip_map_enumerate)
  also have "\<dots> = map snd (map (\<lambda>e. (snd e, ?F e)) (filter ((\<lambda>(r, v). paciente_id r = p) \<circ> (\<lambda>e. (snd e, ?F e))) ?E))"
    by (simp only: filter_map)
  also have "((\<lambda>(r, v). paciente_id r = p) \<circ> (\<lambda>e. (snd e, ?F e))) = (\<lambda>(j, q). paciente_id q = p)"
    by (auto simp add: fun_eq_iff)
  also have "map snd (map (\<lambda>e. (snd e, ?F e)) ?gp) = map ?F ?gp" by (simp add: o_def)
  also have "map ?F ?gp = map (\<lambda>e. the (map_of (zip ?idx ?vals) (fst e))) ?gp"
  proof (rule map_cong [OF refl])
    fix e assume "e \<in> set ?gp"
    then have "paciente_id (snd e) = p" by auto
    then have "?G (snd e) = ?gp" by simp
    then show "?F e = the (map_of (zip ?idx ?vals) (fst e))"
      by (cases e) (simp add: Let_def)
  qed
  also have "\<dots> = map (\<lambda>k. the (map_of (zip ?idx ?vals) k)) ?idx" by (simp add: o_def)
  also have "\<dots> = ?vals"
  proof (rule map_the_map_of_zip)
    show "distinct ?idx" by (rule distinct_map_filter) simp
    show "length ?vals = length ?idx" by (simp add: len)
  qed
  also have "map snd ?gp = filter (\<lambda>r. paciente_id r = p) df"
    by (rule map_snd_filter_enumerate)
  finally show ?thesis by (simp only: ga)
qed

lemma length_groupby_apply [simp]: "length (groupby_apply f df) = length df"
  by (simp add: groupby_apply_def)

lemma not_varios_same:
  assumes "\<not> varios_pacientes df" "r \<in> set df" "q \<in> set df"
  shows "paciente_id r = paciente_id q"
proof -
  have "card (set (map paciente_id df)) \<le> 1"
    using assms(1) by (simp add: varios_pacientes_def length_remdups_card_conv)
  moreover have "paciente_id r \<in> set (map paciente_id df)" "paciente_id q \<in> set (map paciente_id df)"
    using assms(2,3) by simp_all
  moreover have "card (set (map paciente_id df)) \<le> Suc 0 \<longleftrightarrow>
      (\<forall>a\<in>set (map paciente_id df). \<forall>b\<in>set (map paciente_id df). a = b)"
    by (rule card_le_Suc0_iff_eq [OF finite_set])
  ultimately show ?thesis by (simp only: One_nat_def)
qed

lemma not_varios_filter: "\<not> varios_pacientes (filter (\<lambda>r. paciente_id r = p) df)"
proof -
  have "set (map paciente_id (filter (\<lambda>r. paciente_id r = p) df)) \<subseteq> {p}" by auto
  then have "card (set (map paciente_id (filter (\<lambda>r. paciente_id r = p) df))) \<le> card {p}"
    by (intro card_mono) simp_all
  then show ?thesis by (simp add: varios_pacientes_def length_remdups_card_conv)
qed

lemma map_snd_filter_zip_all:
  "length vs = length df \<Longrightarrow> \<forall>r\<in>set df. P r \<Longrightarrow>
     map snd (filter (\<lambda>(r, v). P r) (zip df vs)) = vs"
proof -
  assume l: "length vs = length df" and a: "\<forall>r\<in>set df. P r"
  have "filter (\<lambda>(r, v). P r) (zip df vs) = zip df vs"
    using a by (auto simp add: filter_id_conv dest: set_zip_leftD)
  with l show ?thesis by simp
qed

lemma map_snd_filter_zip_none:
  "\<forall>r\<in>set df. \<not> P r \<Longrightarrow> map snd (filter (\<lambda>(r, v). P r) (zip df vs)) = []"
  by (auto simp add: filter_empty_conv dest: set_zip_leftD)

lemma per_subject_restrict:
  assumes len: "\<And>g. length (f g) = length g"
  shows "map snd (filter (\<lambda>(r, v). paciente_id r = p)
           (zip df (if varios_pacientes df then groupby_apply f df else f df)))
         = f (filter (\<lambda>r. paciente_id r = p) df)"
proof (cases "varios_pacientes df")
  case True
  then show ?thesis by (simp add: groupby_apply_restrict [OF len])
next
  case False
  show ?thesis
  proof (cases "\<exists>r\<in>set df. paciente_id r = p")
    case True
    then have all: "\<forall>r\<in>set df. paciente_id r = p"
      using not_varios_same [OF False] by metis
    then have "filter (\<lambda>r. paciente_id r = p) df = df" by simp
    with False all show ?thesis by (simp add: map_snd_filter_zip_all len)
  next
    case none: False
    then have "filter (\<lambda>r. paciente_id r = p) df = []" by (simp add: filter_empty_conv)
    moreover have "f [] = []" using len [of "[]"] by simp
    ultimately show ?thesis using none False by (simp add: map_snd_filter_zip_none)
  qed
qed

lemma filter_select:
  assumes "length m = length df"
  shows "filter P (select df m) = select (filter P df) (map snd (filter (\<lambda>(r, v). P r) (zip df m)))"
  using assms
proof (induction df arbitrary: m)
  case Nil
  then show ?case by (simp add: select_def)
next
  case (Cons r df)
  then obtain b bs where m: "m = b # bs" by (cases m) auto
  with Cons.prems have "length bs = length df" by simp
  from Cons.IH [OF this] show ?case
    by (simp add: m select_def)
qed

lemma restrict_map:
  "map snd (filter (\<lambda>(r, v). P r) (zip df (map g vs)))
     = map g (map snd (filter (\<lambda>(r, v). P r) (zip df vs)))"
proof (induction df arbitrary: vs)
  case Nil
  then show ?case by simp
next
  case (Cons r df)
  then show ?case by (cases vs) simp_all
qed

lemma restrict_zip:
  "map snd (filter (\<lambda>(r, v). P r) (zip df (zip as bs)))
     = zip (map snd (filter (\<lambda>(r, v). P r) (zip df as)))
           (map snd (filter (\<lambda>(r, v). P r) (zip df bs)))"
  if "length as = length df" "length bs = length df"
  using that
proof (induction df arbitrary: as bs)
  case Nil
  then show ?case by simp
next
  case (Cons r df)
  then obtain a as' b bs' where "as = a # as'" "bs = b # bs'"
    by (cases as; cases bs) auto
  with Cons show ?case by simp
qed

lemma length_iqr_mask [simp]: "length (iqr_mask col g) = length g"
  by (simp add: iqr_mask_def Let_def split: option.split)

lemma length_diff [simp]: "length (diff vs) = length vs"
  by (simp add: diff_def)

lemma groupby_apply_nth_mem:
  assumes len: "\<And>g. length (f g) = length g" and i: "i < length df"
  shows "groupby_apply f df ! i \<in> set (f (filter (\<lambda>r. paciente_id r = paciente_id (df ! i)) df))"
proof -
  let ?gp = "filter (\<lambda>(j, q). paciente_id q = paciente_id (df ! i)) (enumerate 0 df)"
  let ?idx = "map fst ?gp"
  let ?vals = "f (map snd ?gp)"
  have v: "groupby_apply f df ! i = the (map_of (zip ?idx ?vals) i)"
    using i by (simp add: groupby_apply_def nth_enumerate_eq Let_def)
  have "(i, df ! i) \<in> set (enumerate 0 df)" using i by (simp add: in_set_enumerate_eq)
  then have "(i, df ! i) \<in> set ?gp" by simp
  then have "i \<in> set ?idx" by force
  moreover have "length ?idx = length ?vals" by (simp add: len)
  ultimately obtain y where y: "map_of (zip ?idx ?vals) i = Some y"
    using map_of_zip_is_Some [of ?idx ?vals i] by blast
  then have "(i, y) \<in> set (zip ?idx ?vals)" by (rule map_of_SomeD)
  then have "y \<in> set ?vals" by (rule set_zip_rightD)
  with v y show ?thesis by (simp add: map_snd_filter_enumerate)
qed

lemma per_subject_filter:
  assumes len: "\<And>g. length (f g) = length g"
  shows "map snd (filter (\<lambda>(r, v). paciente_id r = p)
           (zip d (if varios_pacientes d then groupby_apply f d else f d)))
         = (if varios_pacientes (filter (\<lambda>r. paciente_id r = p) d)
            then groupby_apply f (filter (\<lambda>r. paciente_id r = p) d)
            else f (filter (\<lambda>r. paciente_id r = p) d))"
  using per_subject_restrict [of f p d, OF len] by (simp add: not_varios_filter)

lemma limpar_e_outliers_restrict:
  "filter (\<lambda>r. paciente_id r = p) (limpar_e_outliers df)
     = limpar_e_outliers (filter (\<lambda>r. paciente_id r = p) df)"
proof -
  let ?P = "\<lambda>r. paciente_id r = p"
  define NZ :: "row \<Rightarrow> bool" where "NZ = (\<lambda>r. \<not> (X r = 0 \<and> Y r = 0))"
  define k :: "row \<Rightarrow> string \<times> real" where "k = (\<lambda>r. (paciente_id r, t_sec r))"
  define mx where "mx d = (if varios_pacientes d then groupby_apply (iqr_mask X) d else iqr_mask X d)" for d
  define my where "my d = (if varios_pacientes d then groupby_apply (iqr_mask Y) d else iqr_mask Y d)" for d
  define out where "out d = select d (map (\<lambda>(a, b). a \<and> b) (zip (mx d) (my d)))" for d
  define dts where "dts d = (if varios_pacientes d then groupby_apply (\<lambda>g. diff (map t_sec g)) d
                             else diff (map t_sec d))" for d
  define ded where "ded d = select d (map (\<lambda>v. v \<noteq> Some 0 \<or> v = None) (dts d))" for d
  have L: "limpar_e_outliers d = ded (out (sort_key k (filter NZ d)))" for d
  proof (cases "d = []")
    case True
    then show ?thesis
      by (simp add: limpar_e_outliers_def ded_def out_def dts_def mx_def my_def select_def
          varios_pacientes_def diff_def)
  next
    case False
    then show ?thesis
      by (simp add: limpar_e_outliers_def Let_def ded_def out_def dts_def mx_def my_def NZ_def k_def)
  qed
  have lmx: "length (mx d) = length d" and lmy: "length (my d) = length d"
    and ldts: "length (dts d) = length d" for d
    by (simp_all add: mx_def my_def dts_def)
  have rmx: "map snd (filter (\<lambda>(r, v). ?P r) (zip d (mx d))) = mx (filter ?P d)" for d
    unfolding mx_def by (rule per_subject_filter) simp
  have rmy: "map snd (filter (\<lambda>(r, v). ?P r) (zip d (my d))) = my (filter ?P d)" for d
    unfolding my_def by (rule per_subject_filter) simp
  have rdts: "map snd (filter (\<lambda>(r, v). ?P r) (zip d (dts d))) = dts (filter ?P d)" for d
    unfolding dts_def by (rule per_subject_filter) simp
  have O: "filter ?P (out d) = out (filter ?P d)" for d
  proof -
    have "filter ?P (out d) = select (filter ?P d)
        (map snd (filter (\<lambda>(r, v). ?P r) (zip d (map (\<lambda>(a, b). a \<and> b) (zip (mx d) (my d))))))"
      unfolding out_def by (rule filter_select) (simp add: lmx lmy)
    also have "map snd (filter (\<lambda>(r, v). ?P r) (zip d (map (\<lambda>(a, b). a \<and> b) (zip (mx d) (my d)))))
        = map (\<lambda>(a, b). a \<and> b) (map snd (filter (\<lambda>(r, v). ?P r) (zip d (zip (mx d) (my d)))))"
      by (rule restrict_map)
    also have "map snd (filter (\<lambda>(r, v). ?P r) (zip d (zip (mx d) (my d))))
        = zip (mx (filter ?P d)) (my (filter ?P d))"
      by (simp only: restrict_zip [OF lmx lmy] rmx rmy)
    finally show ?thesis by (simp only: out_def)
  qed
  have D: "filter ?P (ded d) = ded (filter ?P d)" for d
  proof -
    have "filter ?P (ded d) = select (filter ?P d)
        (map snd (filter (\<lambda>(r, v). ?P r) (zip d (map (\<lambda>v. v \<noteq> Some 0 \<or> v = None) (dts d)))))"
      unfolding ded_def by (rule filter_select) (simp add: ldts)
    also have "map snd (filter (\<lambda>(r, v). ?P r) (zip d (map (\<lambda>v. v \<noteq> Some 0 \<or> v = None) (dts d))))
        = map (\<lambda>v. v \<noteq> Some 0 \<or> v = None) (map snd (filter (\<lambda>(r, v). ?P r) (zip d (dts d))))"
      by (rule restrict_map)
    finally show ?thesis by (simp only: rdts ded_def)
  qed
  have "filter ?P (limpar_e_outliers df) = ded (out (filter ?P (sort_key k (filter NZ df))))"
    by (simp only: L D O)
  also have "filter ?P (sort_key k (filter NZ df)) = sort_key k (filter ?P (filter NZ df))"
    by (rule filter_sort)
  also have "filter ?P (filter NZ df) = filter NZ (filter ?P df)"
    by (simp add: conj_commute)
  finally show ?thesis by (simp only: L)
qed

subsection \<open>The normaliser\<close>

lemma series_max_Max:
  assumes "vs \<noteq> []"
  shows "series_max vs = Max (set vs)"
proof (cases vs)
  case Nil
  with assms show ?thesis by simp
next
  case (Cons a as)
  have "Max (set (a # as)) = fold max as a" by (rule Max.set_eq_fold)
  with Cons show ?thesis by (simp only: series_max_def list.sel)
qed

lemma series_min_Min:
  assumes "vs \<noteq> []"
  shows "series_min vs = Min (set vs)"
proof (cases vs)
  case Nil
  with assms show ?thesis by simp
next
  case (Cons a as)
  have "Min (set (a # as)) = fold min as a" by (rule Min.set_eq_fold)
  with Cons show ?thesis by (simp only: series_min_def list.sel)
qed

lemma series_max_ge: "v \<in> set vs \<Longrightarrow> v \<le> series_max vs"
  by (cases "vs = []") (simp_all add: series_max_Max)

lemma series_min_le: "v \<in> set vs \<Longrightarrow> series_min vs \<le> v"
  by (cases "vs = []") (simp_all add: series_min_Min)

lemma series_max_in: "vs \<noteq> [] \<Longrightarrow> series_max vs \<in> set vs"
  by (simp add: series_max_Max)

lemma series_min_in: "vs \<noteq> [] \<Longrightarrow> series_min vs \<in> set vs"
  by (simp add: series_min_Min)

lemma unit_scale:
  fixes v lo hi :: real
  assumes "lo \<le> v" "v \<le> hi" "lo < hi"
  shows "0 \<le> (v - lo) / (hi - lo)" "(v - lo) / (hi - lo) \<le> 1"
  using assms by simp_all

lemma length_normalizar_grupo [simp]: "length (normalizar_grupo g) = length g"
  by (simp add: normalizar_grupo_def Let_def)

lemma normalizar_grupo_nth:
  assumes "i < length g"
  shows "paciente_id (normalizar_grupo g ! i) = paciente_id (g ! i)"
    and "X (normalizar_grupo g ! i) =
          (if series_max (map X g) - series_min (map X g) > 1 / 10 ^ 10
           then (X (g ! i) - series_min (map X g)) / (series_max (map X g) - series_min (map X g))
           else 1 / 2)"
    and "Y (normalizar_grupo g ! i) =
          (if series_max (map Y g) - series_min (map Y g) > 1 / 10 ^ 10
           then (Y (g ! i) - series_min (map Y g)) / (series_max (map Y g) - series_min (map Y g))
           else 1 / 2)"
  using assms by (simp_all add: normalizar_grupo_def Let_def)

lemma normalizar_grupo_bounds:
  assumes "r \<in> set (normalizar_grupo g)"
  shows "0 \<le> X r \<and> X r \<le> 1 \<and> 0 \<le> Y r \<and> Y r \<le> 1"
proof -
  from assms obtain i where i: "i < length g" and r: "r = normalizar_grupo g ! i"
    by (auto simp add: in_set_conv_nth)
  have mx: "X (g ! i) \<in> set (map X g)" and my: "Y (g ! i) \<in> set (map Y g)"
    using i by simp_all
  have bx: "series_min (map X g) \<le> X (g ! i)" "X (g ! i) \<le> series_max (map X g)"
    using mx by (rule series_min_le, rule series_max_ge)
  have by': "series_min (map Y g) \<le> Y (g ! i)" "Y (g ! i) \<le> series_max (map Y g)"
    using my by (rule series_min_le, rule series_max_ge)
  have "0 \<le> X r \<and> X r \<le> 1"
  proof (cases "series_max (map X g) - series_min (map X g) > 1 / 10 ^ 10")
    case True
    then have "series_min (map X g) < series_max (map X g)" by simp
    with bx show ?thesis
      unfolding r normalizar_grupo_nth(2) [OF i] using True by (simp add: unit_scale)
  next
    case False
    then show ?thesis unfolding r normalizar_grupo_nth(2) [OF i] by simp
  qed
  moreover have "0 \<le> Y r \<and> Y r \<le> 1"
  proof (cases "series_max (map Y g) - series_min (map Y g) > 1 / 10 ^ 10")
    case True
    then have "series_min (map Y g) < series_max (map Y g)" by simp
    with by' show ?thesis
      unfolding r normalizar_grupo_nth(3) [OF i] using True by (simp add: unit_scale)
  next
    case False
    then show ?thesis unfolding r normalizar_grupo_nth(3) [OF i] by simp
  qed
  ultimately show ?thesis by simp
qed

lemma normalizar_grupo_paciente:
  "r \<in> set (normalizar_grupo g) \<Longrightarrow> paciente_id r \<in> paciente_id ` set g"
proof -
  assume "r \<in> set (normalizar_grupo g)"
  then obtain i where i: "i < length g" and r: "r = normalizar_grupo g ! i"
    by (auto simp add: in_set_conv_nth)
  have "g ! i \<in> set g" using i by simp
  then show ?thesis unfolding r normalizar_grupo_nth(1) [OF i] by (rule imageI)
qed

lemma normalizar_coordenadas_unfold:
  "normalizar_coordenadas d =
     (if varios_pacientes d then groupby_apply normalizar_grupo d else normalizar_grupo d)"
  by (cases "d = []")
    (simp_all add: normalizar_coordenadas_def NORMALIZAR_COORDS_def varios_pacientes_def
      normalizar_grupo_def Let_def)

lemma length_normalizar_coordenadas [simp]: "length (normalizar_coordenadas d) = length d"
  by (simp add: normalizar_coordenadas_unfold)

lemma normalizar_coordenadas_paciente:
  assumes "i < length d"
  shows "paciente_id (normalizar_coordenadas d ! i) = paciente_id (d ! i)"
proof (cases "varios_pacientes d")
  case True
  have "groupby_apply normalizar_grupo d ! i
      \<in> set (normalizar_grupo (filter (\<lambda>r. paciente_id r = paciente_id (d ! i)) d))"
    by (rule groupby_apply_nth_mem [OF _ assms]) simp
  from normalizar_grupo_paciente [OF this] True show ?thesis
    by (auto simp add: normalizar_coordenadas_unfold)
next
  case False
  with assms show ?thesis
    by (simp add: normalizar_coordenadas_unfold normalizar_grupo_nth(1))
qed

lemma normalizar_coordenadas_bounds:
  assumes "r \<in> set (normalizar_coordenadas d)"
  shows "0 \<le> X r \<and> X r \<le> 1 \<and> 0 \<le> Y r \<and> Y r \<le> 1"
proof (cases "varios_pacientes d")
  case True
  with assms obtain i where i: "i < length d" and r: "r = groupby_apply normalizar_grupo d ! i"
    by (auto simp add: normalizar_coordenadas_unfold in_set_conv_nth)
  have "r \<in> set (normalizar_grupo (filter (\<lambda>q. paciente_id q = paciente_id (d ! i)) d))"
    unfolding r by (rule groupby_apply_nth_mem [OF _ i]) simp
  then show ?thesis by (rule normalizar_grupo_bounds)
next
  case False
  with assms have "r \<in> set (normalizar_grupo d)" by (simp add: normalizar_coordenadas_unfold)
  then show ?thesis by (rule normalizar_grupo_bounds)
qed

lemma filter_aligned:
  "list_all2 (\<lambda>r v. P v = P r) df vs \<Longrightarrow>
     filter P vs = map snd (filter (\<lambda>(r, v). P r) (zip df vs))"
  by (induction rule: list_all2_induct) simp_all

lemma normalizar_coordenadas_restrict:
  "filter (\<lambda>r. paciente_id r = p) (normalizar_coordenadas df)
     = normalizar_coordenadas (filter (\<lambda>r. paciente_id r = p) df)"
proof -
  have "list_all2 (\<lambda>r v. (paciente_id v = p) = (paciente_id r = p)) df (normalizar_coordenadas df)"
    by (simp add: list_all2_conv_all_nth normalizar_coordenadas_paciente)
  then have "filter (\<lambda>r. paciente_id r = p) (normalizar_coordenadas df)
      = map snd (filter (\<lambda>(r, v). paciente_id r = p) (zip df (normalizar_coordenadas df)))"
    by (rule filter_aligned)
  also have "\<dots> = normalizar_coordenadas (filter (\<lambda>r. paciente_id r = p) df)"
    unfolding normalizar_coordenadas_unfold by (rule per_subject_filter) simp
  finally show ?thesis .
qed

lemma series_range_unit:
  assumes "vs \<noteq> []" and "\<forall>v\<in>set vs. 0 \<le> v \<and> v \<le> (1::real)"
  shows "0 \<le> series_max vs - series_min vs" and "series_max vs - series_min vs \<le> 1"
proof -
  have a: "series_max vs \<in> set vs" and b: "series_min vs \<in> set vs"
    using assms(1) by (rule series_max_in, rule series_min_in)
  have "series_min vs \<le> series_max vs" using a by (rule series_min_le)
  then show "0 \<le> series_max vs - series_min vs" by simp
  from a b assms(2) have "series_max vs \<le> 1" "0 \<le> series_min vs" by auto
  then show "series_max vs - series_min vs \<le> 1" by simp
qed

lemma dispersao_area_bb_unit:
  assumes "\<forall>r\<in>set w. 0 \<le> X r \<and> X r \<le> 1 \<and> 0 \<le> Y r \<and> Y r \<le> 1"
  shows "0 \<le> dispersao_area_bb w \<and> dispersao_area_bb w \<le> 1"
proof (cases "w = [] \<or> length w < 2")
  case True
  then show ?thesis by (auto simp add: dispersao_area_bb_def)
next
  case False
  then have ne: "map X w \<noteq> []" "map Y w \<noteq> []" by auto
  have ux: "\<forall>v\<in>set (map X w). 0 \<le> v \<and> v \<le> 1" and uy: "\<forall>v\<in>set (map Y w). 0 \<le> v \<and> v \<le> 1"
    using assms by auto
  note rx = series_range_unit [OF ne(1) ux] and ry = series_range_unit [OF ne(2) uy]
  have "0 \<le> (series_max (map X w) - series_min (map X w)) * (series_max (map Y w) - series_min (map Y w))"
    using rx(1) ry(1) by (rule mult_nonneg_nonneg)
  moreover have "(series_max (map X w) - series_min (map X w)) * (series_max (map Y w) - series_min (map Y w)) \<le> 1"
    using rx(2) ry(1) ry(2) by (rule mult_le_one)
  ultimately show ?thesis using False by (simp add: dispersao_area_bb_def Let_def)
qed

lemma normalizar_half:
  assumes r: "r \<in> set (normalizar_coordenadas df)" and p: "paciente_id r = p"
  shows "series_max (map X (filter (\<lambda>r. paciente_id r = p) df))
           - series_min (map X (filter (\<lambda>r. paciente_id r = p) df)) < 1 / 10 ^ 10 \<Longrightarrow> X r = 1 / 2"
    and "series_max (map Y (filter (\<lambda>r. paciente_id r = p) df))
           - series_min (map Y (filter (\<lambda>r. paciente_id r = p) df)) < 1 / 10 ^ 10 \<Longrightarrow> Y r = 1 / 2"
proof -
  let ?g = "filter (\<lambda>r. paciente_id r = p) df"
  from r p have "r \<in> set (filter (\<lambda>r. paciente_id r = p) (normalizar_coordenadas df))" by simp
  then have "r \<in> set (normalizar_coordenadas ?g)" by (simp only: normalizar_coordenadas_restrict)
  then have "r \<in> set (normalizar_grupo ?g)"
    by (simp add: normalizar_coordenadas_unfold not_varios_filter)
  then obtain i where i: "i < length ?g" and ri: "r = normalizar_grupo ?g ! i"
    by (auto simp add: in_set_conv_nth)
  show "series_max (map X ?g) - series_min (map X ?g) < 1 / 10 ^ 10 \<Longrightarrow> X r = 1 / 2"
    unfolding ri normalizar_grupo_nth(2) [OF i] by simp
  show "series_max (map Y ?g) - series_min (map Y ?g) < 1 / 10 ^ 10 \<Longrightarrow> Y r = 1 / 2"
    unfolding ri normalizar_grupo_nth(3) [OF i] by simp
qed

text \<open>
  C7. After the per-subject min-max normalisation every coordinate of the table lies
  in [0, 1]; a coordinate whose range within the subject is below 1e-10 is the constant
  0.5 on all rows of that subject. Hence the dispersion area of any window of normalised
  rows lies in [0, 1], and it is 0 for a window of fewer than two rows. This holds for
  every table, the non-empty ones in particular.
\<close>

theorem C7_normalized_unit_square:
  "(\<forall>r\<in>set (normalizar_coordenadas df). 0 \<le> X r \<and> X r \<le> 1 \<and> 0 \<le> Y r \<and> Y r \<le> 1) \<and>
   (\<forall>p. series_max (map X (filter (\<lambda>r. paciente_id r = p) df))
          - series_min (map X (filter (\<lambda>r. paciente_id r = p) df)) < 1 / 10 ^ 10 \<longrightarrow>
        (\<forall>r\<in>set (normalizar_coordenadas df). paciente_id r = p \<longrightarrow> X r = 1 / 2)) \<and>
   (\<forall>p. series_max (map Y (filter (\<lambda>r. paciente_id r = p) df))
          - series_min (map Y (filter (\<lambda>r. paciente_id r = p) df)) < 1 / 10 ^ 10 \<longrightarrow>
        (\<forall>r\<in>set (normalizar_coordenadas df). paciente_id r = p \<longrightarrow> Y r = 1 / 2)) \<and>
   (\<forall>w. set w \<subseteq> set (normalizar_coordenadas df) \<longrightarrow>
        0 \<le> dispersao_area_bb w \<and> dispersao_area_bb w \<le> 1 \<and>
        (length w < 2 \<longrightarrow> dispersao_area_bb w = 0))"
proof (intro conjI allI impI ballI)
  fix r assume "r \<in> set (normalizar_coordenadas df)"
  from normalizar_coordenadas_bounds [OF this]
  show "0 \<le> X r" "X r \<le> 1" "0 \<le> Y r" "Y r \<le> 1" by simp_all
next
  fix p r
  assume "series_max (map X (filter (\<lambda>r. paciente_id r = p) df))
          - series_min (map X (filter (\<lambda>r. paciente_id r = p) df)) < 1 / 10 ^ 10"
    and "r \<in> set (normalizar_coordenadas df)" and "paciente_id r = p"
  then show "X r = 1 / 2" using normalizar_half(1) by blast
next
  fix p r
  assume "series_max (map Y (filter (\<lambda>r. paciente_id r = p) df))
          - series_min (map Y (filter (\<lambda>r. paciente_id r = p) df)) < 1 / 10 ^ 10"
    and "r \<in> set (normalizar_coordenadas df)" and "paciente_id r = p"
  then show "Y r = 1 / 2" using normalizar_half(2) by blast
next
  fix w assume w: "set w \<subseteq> set (normalizar_coordenadas df)"
  have "\<forall>r\<in>set w. 0 \<le> X r \<and> X r \<le> 1 \<and> 0 \<le> Y r \<and> Y r \<le> 1"
    using w normalizar_coordenadas_bounds by blast
  from dispersao_area_bb_unit [OF this]
  show "0 \<le> dispersao_area_bb w" "dispersao_area_bb w \<le> 1" by simp_all
next
  fix w :: "row list" assume "length w < 2"
  then show "dispersao_area_bb w = 0" by (simp add: dispersao_area_bb_def)
qed

text \<open>
  C8. The cleaning and outlier filter and the coordinate normaliser treat a subject the
  same whether it is alone in the table or not: for every table and every subject, the
  rows of that subject in the result are the result of the operation on that subject's
  rows alone.
\<close>

theorem C8_single_or_many_subjects:
  "filter (\<lambda>r. paciente_id r = p) (limpar_e_outliers df)
     = limpar_e_outliers (filter (\<lambda>r. paciente_id r = p) df) \<and>
   filter (\<lambda>r. paciente_id r = p) (normalizar_coordenadas df)
     = normalizar_coordenadas (filter (\<lambda>r. paciente_id r = p) df)"
  using limpar_e_outliers_restrict normalizar_coordenadas_restrict by blast

subsection \<open>Concrete tables\<close>

lemma sample_of_sel [simp]:
  "Key (sample_of p t x y) = 0" "t_sec (sample_of p t x y) = t" "X (sample_of p t x y) = x"
  "Y (sample_of p t x y) = y" "paciente_id (sample_of p t x y) = p"
  by (simp_all add: sample_of_def)

lemma sample_of_upd [simp]:
  "(sample_of p t x y)\<lparr>X := x'\<rparr> = sample_of p t x' y"
  "(sample_of p t x y)\<lparr>Y := y'\<rparr> = sample_of p t x y'"
  by (simp_all add: sample_of_def)

lemma norm_a:
  "normalizar_coordenadas [sample_of ''a'' 0 2 5, sample_of ''a'' 1 4 5, sample_of ''a'' 2 6 5]
     = [sample_of ''a'' 0 0 (1 / 2), sample_of ''a'' 1 (1 / 2) (1 / 2), sample_of ''a'' 2 1 (1 / 2)]"
  by (simp add: normalizar_coordenadas_def NORMALIZAR_COORDS_def varios_pacientes_def
      normalizar_grupo_def series_max_def series_min_def Let_def)

lemma norm_ab:
  "normalizar_coordenadas
     [sample_of ''a'' 0 2 5, sample_of ''b'' 0 1 1, sample_of ''a'' 1 4 5, sample_of ''a'' 2 6 5]
     = [sample_of ''a'' 0 0 (1 / 2), sample_of ''b'' 0 (1 / 2) (1 / 2),
        sample_of ''a'' 1 (1 / 2) (1 / 2), sample_of ''a'' 2 1 (1 / 2)]"
  by (simp add: normalizar_coordenadas_def NORMALIZAR_COORDS_def varios_pacientes_def
      groupby_apply_def normalizar_grupo_def series_max_def series_min_def Let_def)

lemma limpar_a_sorted: "sort_key (\<lambda>r. (paciente_id r, t_sec r))
     [sample_of ''a'' 1 1 1, sample_of ''a'' 2 2 1, sample_of ''a'' 2 3 1,
      sample_of ''a'' 3 2 1, sample_of ''a'' 4 100 1]
   = [sample_of ''a'' 1 1 1, sample_of ''a'' 2 2 1, sample_of ''a'' 2 3 1,
      sample_of ''a'' 3 2 1, sample_of ''a'' 4 100 1]"
  by simp

lemma quartis_x_a: "percentile [1, 2, 3, 2, 100] 25 = Some 2" "percentile [1, 2, 3, 2, 100] 75 = Some 3"
  by (simp_all add: percentile_def Let_def)

lemma iqr_mask_x_a: "iqr_mask X [sample_of ''a'' 1 1 1, sample_of ''a'' 2 2 1, sample_of ''a'' 2 3 1,
      sample_of ''a'' 3 2 1, sample_of ''a'' 4 100 1] = [True, True, True, True, False]"
  by (simp add: iqr_mask_def quartis_x_a Let_def)

lemma quartis_y_a: "percentile [1, 1, 1, 1, 1] 25 = Some 1" "percentile [1, 1, 1, 1, 1] 75 = Some 1"
  by (simp_all add: percentile_def Let_def)

lemma iqr_mask_y_a: "iqr_mask Y [sample_of ''a'' 1 1 1, sample_of ''a'' 2 2 1, sample_of ''a'' 2 3 1,
      sample_of ''a'' 3 2 1, sample_of ''a'' 4 100 1] = [True, True, True, True, True]"
  by (simp add: iqr_mask_def quartis_y_a Let_def)

lemma varios_a: "varios_pacientes [sample_of ''a'' 1 1 1, sample_of ''a'' 2 2 1, sample_of ''a'' 2 3 1,
      sample_of ''a'' 3 2 1, sample_of ''a'' 4 100 1] = False"
   "varios_pacientes [sample_of ''a'' 1 1 1, sample_of ''a'' 2 2 1, sample_of ''a'' 2 3 1,
      sample_of ''a'' 3 2 1] = False"
  by (simp_all add: varios_pacientes_def)

lemma diff_a: "diff (map t_sec [sample_of ''a'' 1 1 1, sample_of ''a'' 2 2 1, sample_of ''a'' 2 3 1,
      sample_of ''a'' 3 2 1]) = [None, Some 1, Some 0, Some 1]"
  by (simp add: diff_def)

lemma limpar_a:
  "limpar_e_outliers
     [sample_of ''a'' 0 0 0, sample_of ''a'' 1 1 1, sample_of ''a'' 2 2 1, sample_of ''a'' 2 3 1,
      sample_of ''a'' 3 2 1, sample_of ''a'' 4 100 1]
     = [sample_of ''a'' 1 1 1, sample_of ''a'' 2 2 1, sample_of ''a'' 3 2 1]"
proof -
  have ne: "[sample_of ''a'' 0 0 0, sample_of ''a'' 1 1 1, sample_of ''a'' 2 2 1,
      sample_of ''a'' 2 3 1, sample_of ''a'' 3 2 1, sample_of ''a'' 4 100 1] \<noteq> []"
    by simp
  have nz: "filter (\<lambda>r. \<not> (X r = 0 \<and> Y r = 0))
      [sample_of ''a'' 0 0 0, sample_of ''a'' 1 1 1, sample_of ''a'' 2 2 1,
       sample_of ''a'' 2 3 1, sample_of ''a'' 3 2 1, sample_of ''a'' 4 100 1]
    = [sample_of ''a'' 1 1 1, sample_of ''a'' 2 2 1, sample_of ''a'' 2 3 1,
       sample_of ''a'' 3 2 1, sample_of ''a'' 4 100 1]"
    by simp
  have m: "select [sample_of ''a'' 1 1 1, sample_of ''a'' 2 2 1, sample_of ''a'' 2 3 1,
       sample_of ''a'' 3 2 1, sample_of ''a'' 4 100 1]
      (map (\<lambda>(a, b). a \<and> b) (zip [True, True, True, True, False] [True, True, True, True, True]))
    = [sample_of ''a'' 1 1 1, sample_of ''a'' 2 2 1, sample_of ''a'' 2 3 1, sample_of ''a'' 3 2 1]"
    by (simp add: select_def)
  have d: "select [sample_of ''a'' 1 1 1, sample_of ''a'' 2 2 1, sample_of ''a'' 2 3 1,
       sample_of ''a'' 3 2 1]
      (map (\<lambda>d. d \<noteq> Some 0 \<or> d = None) [None, Some (1::real), Some 0, Some 1])
    = [sample_of ''a'' 1 1 1, sample_of ''a'' 2 2 1, sample_of ''a'' 3 2 1]"
    by (simp add: select_def)
  show ?thesis
    by (simp only: limpar_e_outliers_def Let_def ne if_False nz limpar_a_sorted varios_a iqr_mask_x_a iqr_mask_y_a m diff_a d)
qed

theorem C7_normalized_unit_square_witness:
  "sample_of ''a'' 2 1 (1 / 2) \<in> set (normalizar_coordenadas
      [sample_of ''a'' 0 2 5, sample_of ''b'' 0 1 1, sample_of ''a'' 1 4 5, sample_of ''a'' 2 6 5]) \<and>
   X (sample_of ''a'' 2 1 (1 / 2)) \<le> 1 \<and>
   series_max (map Y (filter (\<lambda>r. paciente_id r = ''a'')
      [sample_of ''a'' 0 2 5, sample_of ''b'' 0 1 1, sample_of ''a'' 1 4 5, sample_of ''a'' 2 6 5]))
     - series_min (map Y (filter (\<lambda>r. paciente_id r = ''a'')
      [sample_of ''a'' 0 2 5, sample_of ''b'' 0 1 1, sample_of ''a'' 1 4 5, sample_of ''a'' 2 6 5]))
     < 1 / 10 ^ 10 \<and>
   Y (sample_of ''a'' 2 1 (1 / 2)) = 1 / 2 \<and>
   set [sample_of ''a'' 0 0 (1 / 2), sample_of ''a'' 2 1 (1 / 2)] \<subseteq> set (normalizar_coordenadas
      [sample_of ''a'' 0 2 5, sample_of ''b'' 0 1 1, sample_of ''a'' 1 4 5, sample_of ''a'' 2 6 5]) \<and>
   dispersao_area_bb [sample_of ''a'' 0 0 (1 / 2), sample_of ''a'' 2 1 (1 / 2)] \<le> 1 \<and>
   length [sample_of ''a'' 2 1 (1 / 2)] < 2 \<and>
   dispersao_area_bb [sample_of ''a'' 2 1 (1 / 2)] = 0"
proof -
  let ?T = "[sample_of ''a'' 0 2 5, sample_of ''b'' 0 1 1, sample_of ''a'' 1 4 5, sample_of ''a'' 2 6 5]"
  note c7 = C7_normalized_unit_square [of ?T]
  have m: "sample_of ''a'' 2 1 (1 / 2) \<in> set (normalizar_coordenadas ?T)"
    unfolding norm_ab by simp
  have s: "set [sample_of ''a'' 0 0 (1 / 2), sample_of ''a'' 2 1 (1 / 2)]
      \<subseteq> set (normalizar_coordenadas ?T)"
    unfolding norm_ab by simp
  have s1: "set [sample_of ''a'' 2 1 (1 / 2)] \<subseteq> set (normalizar_coordenadas ?T)"
    unfolding norm_ab by simp
  have y: "series_max (map Y (filter (\<lambda>r. paciente_id r = ''a'') ?T))
     - series_min (map Y (filter (\<lambda>r. paciente_id r = ''a'') ?T)) < 1 / 10 ^ 10"
    by (simp add: series_max_def series_min_def)
  from c7 m have "X (sample_of ''a'' 2 1 (1 / 2)) \<le> 1" by blast
  moreover from c7 y m have "Y (sample_of ''a'' 2 1 (1 / 2)) = 1 / 2"
    using sample_of_sel(5) by blast
  moreover from c7 s have "dispersao_area_bb [sample_of ''a'' 0 0 (1 / 2), sample_of ''a'' 2 1 (1 / 2)] \<le> 1"
    by blast
  moreover have l: "length [sample_of ''a'' 2 1 (1 / 2)] < 2" by simp
  moreover from c7 s1 l have "dispersao_area_bb [sample_of ''a'' 2 1 (1 / 2)] = 0" by blast
  ultimately show ?thesis using m s y by blast
qed

theorem C8_single_or_many_subjects_witness:
  "filter (\<lambda>r. paciente_id r = ''a'') (limpar_e_outliers
     [sample_of ''b'' 0 5 5, sample_of ''a'' 0 0 0, sample_of ''a'' 1 1 1, sample_of ''a'' 2 2 1,
      sample_of ''a'' 2 3 1, sample_of ''a'' 3 2 1, sample_of ''a'' 4 100 1])
     = [sample_of ''a'' 1 1 1, sample_of ''a'' 2 2 1, sample_of ''a'' 3 2 1] \<and>
   filter (\<lambda>r. paciente_id r = ''a'') (normalizar_coordenadas
     [sample_of ''a'' 0 2 5, sample_of ''b'' 0 1 1, sample_of ''a'' 1 4 5, sample_of ''a'' 2 6 5])
     = [sample_of ''a'' 0 0 (1 / 2), sample_of ''a'' 1 (1 / 2) (1 / 2), sample_of ''a'' 2 1 (1 / 2)]"
  using C8_single_or_many_subjects [of "''a''"
      "[sample_of ''b'' 0 5 5, sample_of ''a'' 0 0 0, sample_of ''a'' 1 1 1, sample_of ''a'' 2 2 1,
        sample_of ''a'' 2 3 1, sample_of ''a'' 3 2 1, sample_of ''a'' 4 100 1]"]
    C8_single_or_many_subjects [of "''a''"
      "[sample_of ''a'' 0 2 5, sample_of ''b'' 0 1 1, sample_of ''a'' 1 4 5, sample_of ''a'' 2 6 5]"]
  by (simp add: limpar_a norm_a)

section \<open>Properties of the inter-group statistics\<close>

lemma set_estatisticas_inter_grupo:
  "set (estatisticas_inter_grupo s mw c a) =
     {linha_inter s mw stim m (valores m (filter (\<lambda>r. mets_Stimuli r = stim) c))
        (valores m (filter (\<lambda>r. mets_Stimuli r = stim) a)) | stim m.
      stim \<in> mets_Stimuli ` set c \<union> mets_Stimuli ` set a \<and> m \<in> set METRICAS_COMPARAR \<and>
      \<not> (valores m (filter (\<lambda>r. mets_Stimuli r = stim) c) = [] \<and>
         valores m (filter (\<lambda>r. mets_Stimuli r = stim) a) = [])}"
  (is "?L = ?R")
proof -
  let ?todos = "sort (remdups ((if c \<noteq> [] then remdups (map mets_Stimuli c) else []) @
      (if a \<noteq> [] then remdups (map mets_Stimuli a) else [])))"
  let ?row = "\<lambda>stim m. linha_inter s mw stim m
      (valores m (if c \<noteq> [] then filter (\<lambda>r. mets_Stimuli r = stim) c else []))
      (valores m (if a \<noteq> [] then filter (\<lambda>r. mets_Stimuli r = stim) a else []))"
  let ?linhas = "concat (map (\<lambda>stim. concat (map (\<lambda>m.
      if length (valores m (if c \<noteq> [] then filter (\<lambda>r. mets_Stimuli r = stim) c else [])) = 0 \<and>
         length (valores m (if a \<noteq> [] then filter (\<lambda>r. mets_Stimuli r = stim) a else [])) = 0
      then [] else [?row stim m]) METRICAS_COMPARAR)) ?todos)"
  have f: "(if t \<noteq> [] then filter P t else []) = filter P t" for t :: "mets_row list" and P
    by simp
  have todos: "set ?todos = mets_Stimuli ` set c \<union> mets_Stimuli ` set a" by auto
  have lin: "set ?linhas = ?R"
    unfolding f set_concat set_map todos by (auto split: if_splits)
  have empty: "?R = {}" if "c = []" "a = []"
    using that by simp
  define linhas where "linhas = ?linhas"
  have unf: "estatisticas_inter_grupo s mw c a =
      (if c = [] \<and> a = [] then []
       else if linhas = [] then [] else sort_key (\<lambda>r. (ig_Stimuli r, Metrica r)) linhas)"
    unfolding linhas_def by (simp only: estatisticas_inter_grupo_def Let_def)
  have sl: "set (if linhas = [] then [] else sort_key (\<lambda>r. (ig_Stimuli r, Metrica r)) linhas)
      = set linhas"
    by simp
  have "?L = set linhas"
  proof (cases "c = [] \<and> a = []")
    case True
    then have r: "?R = {}" using empty by simp
    have "estatisticas_inter_grupo s mw c a = []"
      unfolding unf using True by simp
    then have "?L = {}" by simp
    with r lin show ?thesis by (simp only: linhas_def)
  next
    case False
    then show ?thesis by (simp only: unf sl if_False)
  qed
  with lin show ?thesis by (simp only: linhas_def)
qed

lemma linha_inter_sel [simp]:
  "ig_Stimuli (linha_inter s mw stim m arr_c arr_a) = stim"
  "Metrica (linha_inter s mw stim m arr_c arr_a) = m"
  by (simp_all add: linha_inter_def Let_def)

lemma valores_nonempty_Stimuli:
  "valores m (filter (\<lambda>r. mets_Stimuli r = stim) t) \<noteq> [] \<Longrightarrow> stim \<in> mets_Stimuli ` set t"
proof -
  assume "valores m (filter (\<lambda>r. mets_Stimuli r = stim) t) \<noteq> []"
  then have "filter (\<lambda>r. mets_Stimuli r = stim) t \<noteq> []" by (auto simp add: valores_def)
  then obtain r where "r \<in> set t" "mets_Stimuli r = stim"
    by (auto simp add: filter_empty_conv)
  then show ?thesis by blast
qed

lemma linha_inter_ctrl_empty:
  "arr_a \<noteq> [] \<Longrightarrow> linha_inter s mw stim m [] arr_a =
     \<lparr>ig_Stimuli = stim, Metrica = m, Controle_media = None, Controle_desvio = None,
      Afasico_media = Some (py_round (mean arr_a) 6),
      Afasico_desvio = (if 1 < length arr_a then Some (py_round (std_ddof1 arr_a) 6) else None),
      MannWhitney_U = None, p_value = None\<rparr>"
  by (simp add: linha_inter_def Let_def)

lemma linha_inter_afa_empty:
  "arr_c \<noteq> [] \<Longrightarrow> linha_inter s mw stim m arr_c [] =
     \<lparr>ig_Stimuli = stim, Metrica = m,
      Controle_media = Some (py_round (mean arr_c) 6),
      Controle_desvio = (if 1 < length arr_c then Some (py_round (std_ddof1 arr_c) 6) else None),
      Afasico_media = None, Afasico_desvio = None,
      MannWhitney_U = None, p_value = None\<rparr>"
  by (simp add: linha_inter_def Let_def)

lemma inter_row_emitted:
  assumes m: "m \<in> set METRICAS_COMPARAR"
    and ne: "\<not> (valores m (filter (\<lambda>r. mets_Stimuli r = stim) c) = [] \<and>
                valores m (filter (\<lambda>r. mets_Stimuli r = stim) a) = [])"
  shows "linha_inter s mw stim m (valores m (filter (\<lambda>r. mets_Stimuli r = stim) c))
           (valores m (filter (\<lambda>r. mets_Stimuli r = stim) a))
         \<in> set (estatisticas_inter_grupo s mw c a)"
    and "\<forall>r\<in>set (estatisticas_inter_grupo s mw c a). ig_Stimuli r = stim \<and> Metrica r = m \<longrightarrow>
           r = linha_inter s mw stim m (valores m (filter (\<lambda>r. mets_Stimuli r = stim) c))
                 (valores m (filter (\<lambda>r. mets_Stimuli r = stim) a))"
proof -
  from ne have "stim \<in> mets_Stimuli ` set c \<union> mets_Stimuli ` set a"
    using valores_nonempty_Stimuli [of m stim c] valores_nonempty_Stimuli [of m stim a] by blast
  with m ne show "linha_inter s mw stim m (valores m (filter (\<lambda>r. mets_Stimuli r = stim) c))
           (valores m (filter (\<lambda>r. mets_Stimuli r = stim) a))
         \<in> set (estatisticas_inter_grupo s mw c a)"
    unfolding set_estatisticas_inter_grupo by blast
  show "\<forall>r\<in>set (estatisticas_inter_grupo s mw c a). ig_Stimuli r = stim \<and> Metrica r = m \<longrightarrow>
           r = linha_inter s mw stim m (valores m (filter (\<lambda>r. mets_Stimuli r = stim) c))
                 (valores m (filter (\<lambda>r. mets_Stimuli r = stim) a))"
    unfolding set_estatisticas_inter_grupo by auto
qed

lemma mets_of_sel [simp]:
  "mets_Stimuli (mets_of stim pid ns nf) = stim"
  "tempo_resposta_s (mets_of stim pid ns nf) = None"
  "n_sacadas (mets_of stim pid ns nf) = ns"
  "tempo_medio_sacada_s (mets_of stim pid ns nf) = None"
  "n_fixacoes (mets_of stim pid ns nf) = nf"
  "duracao_media_fix_s (mets_of stim pid ns nf) = None"
  "dispersao_area (mets_of stim pid ns nf) = 0"
  by (simp_all add: mets_of_def)

lemma valores_one:
  "valores m [mets_of ''trog1.png'' ''p1'' 2 3] =
     (if m = ''n_sacadas'' then [2] else if m = ''n_fixacoes'' then [3]
      else if m = ''dispersao_area'' then [0] else [])"
  by (simp add: valores_def List.map_filter_def coluna_def)

lemma py_round_2 [simp]: "py_round 2 n = 2" "py_round 3 n = 3"
  by (simp_all add: py_round_def)

lemma valores_Nil [simp]: "valores m [] = []"
  by (simp add: valores_def)

lemma linhas_one:
  "concat (map (\<lambda>m. if valores m [mets_of ''trog1.png'' ''p1'' 2 3] = [] then []
        else [linha_inter True (\<lambda>a b. None) ''trog1.png'' m [] (valores m [mets_of ''trog1.png'' ''p1'' 2 3])])
     METRICAS_COMPARAR) =
   [\<lparr>ig_Stimuli = ''trog1.png'', Metrica = ''n_sacadas'', Controle_media = None,
      Controle_desvio = None, Afasico_media = Some 2, Afasico_desvio = None,
      MannWhitney_U = None, p_value = None\<rparr>,
    \<lparr>ig_Stimuli = ''trog1.png'', Metrica = ''n_fixacoes'', Controle_media = None,
      Controle_desvio = None, Afasico_media = Some 3, Afasico_desvio = None,
      MannWhitney_U = None, p_value = None\<rparr>,
    \<lparr>ig_Stimuli = ''trog1.png'', Metrica = ''dispersao_area'', Controle_media = None,
      Controle_desvio = None, Afasico_media = Some 0, Afasico_desvio = None,
      MannWhitney_U = None, p_value = None\<rparr>]"
  by (simp add: METRICAS_COMPARAR_def valores_one linha_inter_def Let_def mean_def)

text \<open>
  The claim as written (mean and standard deviation of the non-empty group populated
  whenever that group has at least one sample) fails on an empty control table and an
  aphasic table of one row: every comparison row is emitted with the aphasic mean, and
  none has an aphasic standard deviation, which the code computes from two samples on.
\<close>

theorem C9_counterexample:
  "valores ''n_sacadas'' (filter (\<lambda>r. mets_Stimuli r = ''trog1.png'') []) = [] \<and>
   valores ''n_sacadas'' (filter (\<lambda>r. mets_Stimuli r = ''trog1.png'')
     [mets_of ''trog1.png'' ''p1'' 2 3]) = [2] \<and>
   estatisticas_inter_grupo True (\<lambda>a b. None) [] [mets_of ''trog1.png'' ''p1'' 2 3] =
   [\<lparr>ig_Stimuli = ''trog1.png'', Metrica = ''dispersao_area'', Controle_media = None,
      Controle_desvio = None, Afasico_media = Some 0, Afasico_desvio = None,
      MannWhitney_U = None, p_value = None\<rparr>,
    \<lparr>ig_Stimuli = ''trog1.png'', Metrica = ''n_fixacoes'', Controle_media = None,
      Controle_desvio = None, Afasico_media = Some 3, Afasico_desvio = None,
      MannWhitney_U = None, p_value = None\<rparr>,
    \<lparr>ig_Stimuli = ''trog1.png'', Metrica = ''n_sacadas'', Controle_media = None,
      Controle_desvio = None, Afasico_media = Some 2, Afasico_desvio = None,
      MannWhitney_U = None, p_value = None\<rparr>]"
proof -
  let ?T = "[mets_of ''trog1.png'' ''p1'' 2 3]"
  let ?L = "concat (map (\<lambda>m. if valores m ?T = [] then []
        else [linha_inter True (\<lambda>a b. None) ''trog1.png'' m [] (valores m ?T)])
     METRICAS_COMPARAR)"
  have 1: "estatisticas_inter_grupo True (\<lambda>a b. None) [] ?T =
      (if ?L = [] then [] else sort_key (\<lambda>r. (ig_Stimuli r, Metrica r)) ?L)"
    by (simp add: estatisticas_inter_grupo_def Let_def cong: if_cong)
  have 2: "estatisticas_inter_grupo True (\<lambda>a b. None) [] ?T =
   [\<lparr>ig_Stimuli = ''trog1.png'', Metrica = ''dispersao_area'', Controle_media = None,
      Controle_desvio = None, Afasico_media = Some 0, Afasico_desvio = None,
      MannWhitney_U = None, p_value = None\<rparr>,
    \<lparr>ig_Stimuli = ''trog1.png'', Metrica = ''n_fixacoes'', Controle_media = None,
      Controle_desvio = None, Afasico_media = Some 3, Afasico_desvio = None,
      MannWhitney_U = None, p_value = None\<rparr>,
    \<lparr>ig_Stimuli = ''trog1.png'', Metrica = ''n_sacadas'', Controle_media = None,
      Controle_desvio = None, Afasico_media = Some 2, Afasico_desvio = None,
      MannWhitney_U = None, p_value = None\<rparr>]"
    unfolding 1 linhas_one by (simp add: less_eq_prod_def)
  have 3: "valores ''n_sacadas'' (filter (\<lambda>r. mets_Stimuli r = ''trog1.png'') ?T) = [2]"
    by (simp add: valores_one)
  show ?thesis using 2 3 by simp
qed

text \<open>
  C9 (as amended). Let one group have no non-missing value of a compared metric for a
  stimulus and the other group at least one. The routine still emits the comparison row
  for that stimulus and metric, and it is the only row for them: the mean of the
  non-empty group is populated, its standard deviation is populated when the group has
  at least two values and is undefined when it has exactly one, the fields of the empty
  group are undefined, and so are the rank-test statistic and the p-value, whatever the
  rank test is and whether or not it is available. The routine has no failing
  operation on such tables: the model is a total function.
\<close>

theorem C9_one_group_empty:
  "m \<in> set METRICAS_COMPARAR \<Longrightarrow>
   (valores m (filter (\<lambda>r. mets_Stimuli r = stim) mets_ctrl) = [] \<and>
    valores m (filter (\<lambda>r. mets_Stimuli r = stim) mets_afa) \<noteq> [] \<longrightarrow>
      (let arr_a = valores m (filter (\<lambda>r. mets_Stimuli r = stim) mets_afa);
           linha = \<lparr>ig_Stimuli = stim, Metrica = m, Controle_media = None, Controle_desvio = None,
                    Afasico_media = Some (py_round (mean arr_a) 6),
                    Afasico_desvio =
                      (if 1 < length arr_a then Some (py_round (std_ddof1 arr_a) 6) else None),
                    MannWhitney_U = None, p_value = None\<rparr>
       in linha \<in> set (estatisticas_inter_grupo SCIPY_OK mannwhitneyu mets_ctrl mets_afa) \<and>
          (\<forall>r\<in>set (estatisticas_inter_grupo SCIPY_OK mannwhitneyu mets_ctrl mets_afa).
             ig_Stimuli r = stim \<and> Metrica r = m \<longrightarrow> r = linha))) \<and>
   (valores m (filter (\<lambda>r. mets_Stimuli r = stim) mets_afa) = [] \<and>
    valores m (filter (\<lambda>r. mets_Stimuli r = stim) mets_ctrl) \<noteq> [] \<longrightarrow>
      (let arr_c = valores m (filter (\<lambda>r. mets_Stimuli r = stim) mets_ctrl);
           linha = \<lparr>ig_Stimuli = stim, Metrica = m,
                    Controle_media = Some (py_round (mean arr_c) 6),
                    Controle_desvio =
                      (if 1 < length arr_c then Some (py_round (std_ddof1 arr_c) 6) else None),
                    Afasico_media = None, Afasico_desvio = None,
                    MannWhitney_U = None, p_value = None\<rparr>
       in linha \<in> set (estatisticas_inter_grupo SCIPY_OK mannwhitneyu mets_ctrl mets_afa) \<and>
          (\<forall>r\<in>set (estatisticas_inter_grupo SCIPY_OK mannwhitneyu mets_ctrl mets_afa).
             ig_Stimuli r = stim \<and> Metrica r = m \<longrightarrow> r = linha)))"
proof (intro conjI impI)
  assume m: "m \<in> set METRICAS_COMPARAR"
    and e: "valores m (filter (\<lambda>r. mets_Stimuli r = stim) mets_ctrl) = [] \<and>
            valores m (filter (\<lambda>r. mets_Stimuli r = stim) mets_afa) \<noteq> []"
  then have ne: "\<not> (valores m (filter (\<lambda>r. mets_Stimuli r = stim) mets_ctrl) = [] \<and>
                valores m (filter (\<lambda>r. mets_Stimuli r = stim) mets_afa) = [])" by simp
  from e have c: "valores m (filter (\<lambda>r. mets_Stimuli r = stim) mets_ctrl) = []"
    and a: "valores m (filter (\<lambda>r. mets_Stimuli r = stim) mets_afa) \<noteq> []" by simp_all
  note row = linha_inter_ctrl_empty [OF a, of SCIPY_OK mannwhitneyu stim m]
  note emitted = inter_row_emitted [OF m ne, of SCIPY_OK mannwhitneyu, unfolded c row]
  show "let arr_a = valores m (filter (\<lambda>r. mets_Stimuli r = stim) mets_afa);
           linha = \<lparr>ig_Stimuli = stim, Metrica = m, Controle_media = None, Controle_desvio = None,
                    Afasico_media = Some (py_round (mean arr_a) 6),
                    Afasico_desvio =
                      (if 1 < length arr_a then Some (py_round (std_ddof1 arr_a) 6) else None),
                    MannWhitney_U = None, p_value = None\<rparr>
       in linha \<in> set (estatisticas_inter_grupo SCIPY_OK mannwhitneyu mets_ctrl mets_afa) \<and>
          (\<forall>r\<in>set (estatisticas_inter_grupo SCIPY_OK mannwhitneyu mets_ctrl mets_afa).
             ig_Stimuli r = stim \<and> Metrica r = m \<longrightarrow> r = linha)"
    unfolding Let_def using emitted by (rule conjI)
next
  assume m: "m \<in> set METRICAS_COMPARAR"
    and e: "valores m (filter (\<lambda>r. mets_Stimuli r = stim) mets_afa) = [] \<and>
            valores m (filter (\<lambda>r. mets_Stimuli r = stim) mets_ctrl) \<noteq> []"
  then have ne: "\<not> (valores m (filter (\<lambda>r. mets_Stimuli r = stim) mets_ctrl) = [] \<and>
                valores m (filter (\<lambda>r. mets_Stimuli r = stim) mets_afa) = [])" by simp
  from e have a: "valores m (filter (\<lambda>r. mets_Stimuli r = stim) mets_afa) = []"
    and c: "valores m (filter (\<lambda>r. mets_Stimuli r = stim) mets_ctrl) \<noteq> []" by simp_all
  note row = linha_inter_afa_empty [OF c, of SCIPY_OK mannwhitneyu stim m]
  note emitted = inter_row_emitted [OF m ne, of SCIPY_OK mannwhitneyu, unfolded a row]
  show "let arr_c = valores m (filter (\<lambda>r. mets_Stimuli r = stim) mets_ctrl);
           linha = \<lparr>ig_Stimuli = stim, Metrica = m,
                    Controle_media = Some (py_round (mean arr_c) 6),
                    Controle_desvio =
                      (if 1 < length arr_c then Some (py_round (std_ddof1 arr_c) 6) else None),
                    Afasico_media = None, Afasico_desvio = None,
                    MannWhitney_U = None, p_value = None\<rparr>
       in linha \<in> set (estatisticas_inter_grupo SCIPY_OK mannwhitneyu mets_ctrl mets_afa) \<and>
          (\<forall>r\<in>set (estatisticas_inter_grupo SCIPY_OK mannwhitneyu mets_ctrl mets_afa).
             ig_Stimuli r = stim \<and> Metrica r = m \<longrightarrow> r = linha)"
    unfolding Let_def using emitted by (rule conjI)
qed

lemma valores_two:
  "valores ''n_sacadas'' [mets_of ''trog1.png'' ''p1'' 2 3, mets_of ''trog1.png'' ''p2'' 4 3] = [2, 4]"
  by (simp add: valores_def List.map_filter_def coluna_def)

theorem C9_one_group_empty_witness:
  "''n_sacadas'' \<in> set METRICAS_COMPARAR \<and>
   valores ''n_sacadas'' (filter (\<lambda>r. mets_Stimuli r = ''trog1.png'') []) = [] \<and>
   valores ''n_sacadas'' (filter (\<lambda>r. mets_Stimuli r = ''trog1.png'')
      [mets_of ''trog1.png'' ''p1'' 2 3, mets_of ''trog1.png'' ''p2'' 4 3]) \<noteq> [] \<and>
   \<lparr>ig_Stimuli = ''trog1.png'', Metrica = ''n_sacadas'', Controle_media = None,
     Controle_desvio = None, Afasico_media = Some 3,
     Afasico_desvio = Some (py_round (std_ddof1 [2, 4]) 6),
     MannWhitney_U = None, p_value = None\<rparr>
     \<in> set (estatisticas_inter_grupo True (\<lambda>a b. Some (Some 0, Some 1)) []
          [mets_of ''trog1.png'' ''p1'' 2 3, mets_of ''trog1.png'' ''p2'' 4 3]) \<and>
   \<lparr>ig_Stimuli = ''trog1.png'', Metrica = ''n_sacadas'', Controle_media = Some 2,
     Controle_desvio = None, Afasico_media = None, Afasico_desvio = None,
     MannWhitney_U = None, p_value = None\<rparr>
     \<in> set (estatisticas_inter_grupo True (\<lambda>a b. Some (Some 0, Some 1))
          [mets_of ''trog1.png'' ''p1'' 2 3] [])"
proof -
  let ?A = "[mets_of ''trog1.png'' ''p1'' 2 3, mets_of ''trog1.png'' ''p2'' 4 3]"
  let ?C = "[mets_of ''trog1.png'' ''p1'' 2 3]"
  have m: "''n_sacadas'' \<in> set METRICAS_COMPARAR" by (simp add: METRICAS_COMPARAR_def)
  have fa: "filter (\<lambda>r. mets_Stimuli r = ''trog1.png'') ?A = ?A" by simp
  have fc: "filter (\<lambda>r. mets_Stimuli r = ''trog1.png'') ?C = ?C" by simp
  have f0: "filter (\<lambda>r. mets_Stimuli r = ''trog1.png'') ([]::mets_row list) = []" by simp
  have vc: "valores ''n_sacadas'' ?C = [2]" by (simp add: valores_one)
  have a: "\<lparr>ig_Stimuli = ''trog1.png'', Metrica = ''n_sacadas'', Controle_media = None,
     Controle_desvio = None, Afasico_media = Some 3,
     Afasico_desvio = Some (py_round (std_ddof1 [2, 4]) 6),
     MannWhitney_U = None, p_value = None\<rparr>
     \<in> set (estatisticas_inter_grupo True (\<lambda>a b. Some (Some 0, Some 1)) [] ?A)"
    using C9_one_group_empty [OF m, of "''trog1.png''" "[]" ?A True "\<lambda>a b. Some (Some 0, Some 1)"]
    unfolding fa f0 valores_two valores_Nil by (simp add: Let_def mean_def)
  have c: "\<lparr>ig_Stimuli = ''trog1.png'', Metrica = ''n_sacadas'', Controle_media = Some 2,
     Controle_desvio = None, Afasico_media = None, Afasico_desvio = None,
     MannWhitney_U = None, p_value = None\<rparr>
     \<in> set (estatisticas_inter_grupo True (\<lambda>a b. Some (Some 0, Some 1)) ?C [])"
    using C9_one_group_empty [OF m, of "''trog1.png''" ?C "[]" True "\<lambda>a b. Some (Some 0, Some 1)"]
    unfolding fc f0 vc valores_Nil by (simp add: Let_def mean_def)
  show ?thesis using m a c unfolding fa f0 valores_two valores_Nil by simp
qed

end
